theory Spec2Isabelle
  imports Main
begin

section \<open>The web media recorder service of WinWhisper\<close>

text \<open>
  This theory embeds \<^verbatim>\<open>createMediaRecorderServiceWeb\<close> (the recording-session
  lifecycle manager) and its two helpers \<^verbatim>\<open>getFirstAvailableStream\<close> and
  \<^verbatim>\<open>getStreamForDeviceId\<close>. The service keeps one variable,
  \<^verbatim>\<open>currentSession\<close>; everything else it touches belongs to the browser
  (media streams, their tracks, media recorders). The embedding makes both explicit:

  \<^item> the browser objects live in two stores indexed by reference, because the source
    shares them (the session and a recorder may hold the same stream, or, as it turns
    out, different ones);
  \<^item> what the browser answers during one call is a parameter, the \<open>env\<close>: a
    device answers every request of that call alike;
  \<^item> every callback the service invokes, every toast it shows and every request for a
    stream is appended to a trace, in the order of the source (the identifiers that
    \<^verbatim>\<open>nanoid()\<close> gives the toasts are left out);
  \<^item> an \<^verbatim>\<open>await\<close> is sequential composition: the operations are not re-entrant.
\<close>

subsection \<open>Data\<close>

datatype track_state = Live | Ended

record media_stream =
  ms_device :: "string option"
  ms_tracks :: "track_state list"

datatype recording_state = Inactive | Recording

record media_recorder =
  mr_stream :: nat
  mr_bitsPerSecond :: nat
  mr_mimeType :: string
  mr_state :: recording_state
  mr_timeslice :: "nat option"

record blob =
  blob_data :: "nat list"
  blob_type :: string

datatype media_device_kind = AudioInput | AudioOutput | VideoInput

record media_device_info =
  dev_deviceId :: string
  dev_kind :: media_device_kind
  dev_label :: string

record recording_session_settings =
  deviceId :: string
  bitsPerSecond :: nat

record recorder =
  mediaRecorder :: nat
  recordedChunks :: "blob list"
  recordingId :: string

record recording_session =
  settings :: recording_session_settings
  stream :: nat
  recorder :: "recorder option"

text \<open>
  Errors are \<^verbatim>\<open>WhisperingError\<close> objects. The model keeps the title (as a
  constructor) and the error carried by a \<^verbatim>\<open>more-details\<close> action; an action of
  type \<^verbatim>\<open>none\<close> is \<open>None\<close>. \<open>DOMException\<close> stands for whatever the browser
  threw into a \<^verbatim>\<open>catch\<close>, \<open>JsError\<close> for a \<^verbatim>\<open>new Error(message)\<close>.
\<close>

datatype err_title =
    SessionAlreadyActive
  | NoActiveSession
  | RecordingInProgress
  | MicrophoneAccessError
  | ErrorAcquiringStream
  | ErrorEnumeratingAndAcquiring
  | RecordingSetupFailed
  | NothingToStop
  | RecordingStopFailed
  | NothingToCancel

datatype error =
    DOMException
  | JsError string
  | WhisperingError err_title "error option"

datatype toast_title =
    NoDeviceSelected
  | ConnectingToSelectedDevice
  | ErrorConnectingToSelectedDevice
  | DefaultedToFirstAvailableDevice
  | RecordingSessionExpired

datatype toast = ToastLoading toast_title | ToastInfo toast_title

datatype platform_call =
    GetUserMediaAudio
  | EnumerateDevices
  | GetUserMediaExact string

datatype payload = Void | StreamRef nat | Artifact blob

datatype event =
    OnMutate
  | OnSuccess payload
  | OnError error
  | OnSettled
  | Toast toast
  | Platform platform_call
  | Uncaught error

text \<open>
  What the browser answers while one operation runs:
  \<^item> \<open>gum_audio_ok\<close>: \<^verbatim>\<open>getUserMedia({ audio: true })\<close> resolves;
  \<^item> \<open>enumerate_devices\<close>: the result of \<^verbatim>\<open>enumerateDevices()\<close>, \<open>None\<close> when it
    throws;
  \<^item> \<open>gum_exact_ok d\<close>: \<^verbatim>\<open>getUserMedia\<close> with \<^verbatim>\<open>deviceId: { exact: d }\<close> resolves;
  \<^item> \<open>new_recorder_ok\<close>: \<^verbatim>\<open>new MediaRecorder(...)\<close> returns;
  \<^item> \<open>recorder_start_ok\<close>: \<^verbatim>\<open>recorder.start(...)\<close> returns;
  \<^item> \<open>recorder_mimeType\<close>: the \<^verbatim>\<open>mimeType\<close> of a recorder built now;
  \<^item> \<open>stop_flush\<close>: the data a recording recorder hands over when it is stopped.
\<close>

record env =
  gum_audio_ok :: bool
  enumerate_devices :: "media_device_info list option"
  gum_exact_ok :: "string \<Rightarrow> bool"
  new_recorder_ok :: bool
  recorder_start_ok :: bool
  recorder_mimeType :: string
  stop_flush :: blob

record world =
  currentSession :: "recording_session option"
  streams :: "nat \<Rightarrow> media_stream"
  recorders :: "nat \<Rightarrow> media_recorder"
  next_stream :: nat
  next_recorder :: nat
  trace :: "event list"

record callbacks =
  cb_onMutate :: "world \<Rightarrow> world"
  cb_onSuccess :: "nat \<Rightarrow> world \<Rightarrow> world"
  cb_onError :: "error \<Rightarrow> world \<Rightarrow> world"
  cb_onSettled :: "world \<Rightarrow> world"

subsection \<open>The browser\<close>

definition TIMESLICE_MS :: nat where
  "TIMESLICE_MS = 1000"

definition emit :: "event \<Rightarrow> world \<Rightarrow> world" where
  "emit ev w = w\<lparr>trace := trace w @ [ev]\<rparr>"

text \<open>\<^verbatim>\<open>blob.size\<close> and \<^verbatim>\<open>new Blob(parts, {type})\<close>.\<close>

definition blob_size :: "blob \<Rightarrow> nat" where
  "blob_size b = length (blob_data b)"

text \<open>
  The constructor does not keep the \<^verbatim>\<open>type\<close> option as it is given (File API):
  a type with a character outside U+0020..U+007E becomes the empty string, any other
  type is converted to ASCII lower case.
\<close>

definition printable_ascii :: "char \<Rightarrow> bool" where
  "printable_ascii c = (32 \<le> (of_char c :: nat) \<and> (of_char c :: nat) \<le> 126)"

definition ascii_lowercase :: "char \<Rightarrow> char" where
  "ascii_lowercase c =
     (case map_of (zip ''ABCDEFGHIJKLMNOPQRSTUVWXYZ'' ''abcdefghijklmnopqrstuvwxyz'') c of
        None \<Rightarrow> c
      | Some l \<Rightarrow> l)"

definition blob_type_option :: "string \<Rightarrow> string" where
  "blob_type_option ty =
     (if list_all printable_ascii ty then map ascii_lowercase ty else [])"

definition new_Blob :: "blob list \<Rightarrow> string \<Rightarrow> blob" where
  "new_Blob parts ty =
     \<lparr>blob_data = concat (map blob_data parts), blob_type = blob_type_option ty\<rparr>"

text \<open>\<^verbatim>\<open>stream.active\<close>: some track of the stream has not ended.\<close>

definition active :: "media_stream \<Rightarrow> bool" where
  "active s = (Live \<in> set (ms_tracks s))"

text \<open>\<^verbatim>\<open>for (const track of stream.getTracks()) track.stop()\<close>.\<close>

definition stop_tracks :: "nat \<Rightarrow> world \<Rightarrow> world" where
  "stop_tracks r w =
     w\<lparr>streams := (streams w)
        (r := (streams w r)\<lparr>ms_tracks := map (\<lambda>_. Ended) (ms_tracks (streams w r))\<rparr>)\<rparr>"

text \<open>A stream handed out by \<^verbatim>\<open>getUserMedia\<close>: one live audio track.\<close>

definition new_stream :: "string option \<Rightarrow> world \<Rightarrow> nat \<times> world" where
  "new_stream dev w =
     (next_stream w,
      w\<lparr>streams := (streams w)(next_stream w := \<lparr>ms_device = dev, ms_tracks = [Live]\<rparr>),
        next_stream := Suc (next_stream w)\<rparr>)"

text \<open>
  \<^verbatim>\<open>recorder.start(timeslice)\<close> and \<^verbatim>\<open>recorder.stop()\<close>. Neither is inside a
  \<^verbatim>\<open>tryAsync\<close> in the source. Whether \<open>start\<close> throws is for the environment to
  say (\<open>recorder_start_ok\<close>: browsers refuse to start a recorder on a stream that is
  not active); \<open>stop\<close> does not throw, and on a recorder that is not recording it
  does nothing (W3C MediaStream Recording).
\<close>

definition recorder_start :: "nat \<Rightarrow> nat \<Rightarrow> world \<Rightarrow> world" where
  "recorder_start r ms w =
     w\<lparr>recorders := (recorders w)
        (r := (recorders w r)\<lparr>mr_state := Recording, mr_timeslice := Some ms\<rparr>)\<rparr>"

definition recorder_stop :: "nat \<Rightarrow> world \<Rightarrow> world" where
  "recorder_stop r w =
     w\<lparr>recorders := (recorders w)(r := (recorders w r)\<lparr>mr_state := Inactive\<rparr>)\<rparr>"

subsection \<open>Stream acquisition\<close>

definition getStreamForDeviceId :: "env \<Rightarrow> string \<Rightarrow> world \<Rightarrow> (error + nat) \<times> world" where
  "getStreamForDeviceId e recordingDeviceId w =
     (let w1 = emit (Platform (GetUserMediaExact recordingDeviceId)) w in
      if gum_exact_ok e recordingDeviceId
      then (case new_stream (Some recordingDeviceId) w1 of (s, w2) \<Rightarrow> (Inr s, w2))
      else (Inl (WhisperingError MicrophoneAccessError (Some DOMException)), w1))"

text \<open>The loop of \<^verbatim>\<open>getFirstAvailableStream\<close> over the audio input devices.\<close>

fun try_devices :: "env \<Rightarrow> media_device_info list \<Rightarrow> world \<Rightarrow> (error + nat) \<times> world" where
  "try_devices e [] w =
     (Inl (WhisperingError MicrophoneAccessError
            (Some (JsError ''No available audio input devices''))), w)"
| "try_devices e (device # rest) w =
     (case getStreamForDeviceId e (dev_deviceId device) w of
        (Inr s, w1) \<Rightarrow> (Inr s, w1)
      | (Inl err, w1) \<Rightarrow> try_devices e rest w1)"

definition getFirstAvailableStream :: "env \<Rightarrow> world \<Rightarrow> (error + nat) \<times> world" where
  "getFirstAvailableStream e w =
     (let w1 = emit (Platform GetUserMediaAudio) w in
      if \<not> gum_audio_ok e
      then (Inl (WhisperingError ErrorEnumeratingAndAcquiring (Some DOMException)), w1)
      else
        (case new_stream None w1 of
           (allAudioDevicesStream, w2) \<Rightarrow>
             (let w3 = emit (Platform EnumerateDevices) w2 in
              case enumerate_devices e of
                None \<Rightarrow>
                  (Inl (WhisperingError ErrorEnumeratingAndAcquiring (Some DOMException)), w3)
              | Some devices \<Rightarrow>
                  try_devices e (filter (\<lambda>device. dev_kind device = AudioInput) devices)
                    (stop_tracks allAudioDevicesStream w3))))"

definition acquireStreamAndSetUpRecordingSession ::
    "env \<Rightarrow> recording_session_settings \<Rightarrow> callbacks \<Rightarrow> world \<Rightarrow> world" where
  "acquireStreamAndSetUpRecordingSession e st cb w =
     (let w1 = cb_onMutate cb w in
      if deviceId st = []
      then
        (let w2 = emit (Toast (ToastLoading NoDeviceSelected)) w1 in
         case getFirstAvailableStream e w2 of
           (Inl err, w3) \<Rightarrow>
             cb_onSettled cb (cb_onError cb (WhisperingError ErrorAcquiringStream (Some err)) w3)
         | (Inr firstStream, w3) \<Rightarrow>
             cb_onSettled cb (cb_onSuccess cb firstStream
               (emit (Toast (ToastInfo DefaultedToFirstAvailableDevice)) w3)))
      else
        (let w2 = emit (Toast (ToastLoading ConnectingToSelectedDevice)) w1 in
         case getStreamForDeviceId e (deviceId st) w2 of
           (Inr preferredStream, w3) \<Rightarrow> cb_onSettled cb (cb_onSuccess cb preferredStream w3)
         | (Inl err0, w3) \<Rightarrow>
             (let w4 = emit (Toast (ToastLoading ErrorConnectingToSelectedDevice)) w3 in
              case getFirstAvailableStream e w4 of
                (Inl err, w5) \<Rightarrow>
                  cb_onSettled cb
                    (cb_onError cb (WhisperingError ErrorAcquiringStream (Some err)) w5)
              | (Inr firstStream, w5) \<Rightarrow>
                  cb_onSettled cb (cb_onSuccess cb firstStream
                    (emit (Toast (ToastInfo DefaultedToFirstAvailableDevice)) w5)))))"

text \<open>
  The callbacks of a caller that only watches: each one records that it was invoked.
\<close>

definition report :: callbacks where
  "report =
     \<lparr>cb_onMutate = emit OnMutate,
      cb_onSuccess = (\<lambda>strm. emit (OnSuccess (StreamRef strm))),
      cb_onError = (\<lambda>err. emit (OnError err)),
      cb_onSettled = emit OnSettled\<rparr>"

subsection \<open>The service\<close>

text \<open>
  The callbacks \<^verbatim>\<open>initRecordingSession\<close> hands to stream acquisition: success
  opens the session and reports it, failure is reported under another title.
\<close>

definition init_callbacks :: "recording_session_settings \<Rightarrow> callbacks" where
  "init_callbacks st =
     \<lparr>cb_onMutate = (\<lambda>v. v),
      cb_onSuccess = (\<lambda>strm v.
         emit (OnSuccess Void)
           (v\<lparr>currentSession := Some \<lparr>settings = st, stream = strm, recorder = None\<rparr>\<rparr>)),
      cb_onError = (\<lambda>err. emit (OnError (WhisperingError MicrophoneAccessError (Some err)))),
      cb_onSettled = (\<lambda>v. v)\<rparr>"

definition initRecordingSession :: "env \<Rightarrow> recording_session_settings \<Rightarrow> world \<Rightarrow> world" where
  "initRecordingSession e st w =
     (let w1 = emit OnMutate w in
      case currentSession w1 of
        Some sess \<Rightarrow>
          emit OnSettled (emit (OnError (WhisperingError SessionAlreadyActive None)) w1)
      | None \<Rightarrow>
          emit OnSettled (acquireStreamAndSetUpRecordingSession e st (init_callbacks st) w1))"

definition closeRecordingSession :: "world \<Rightarrow> world" where
  "closeRecordingSession w =
     (let w1 = emit OnMutate w in
      case currentSession w1 of
        None \<Rightarrow> emit (OnError (WhisperingError NoActiveSession None)) w1
      | Some sess \<Rightarrow>
          (case recorder sess of
             Some r \<Rightarrow>
               emit OnSettled (emit (OnError (WhisperingError RecordingInProgress None)) w1)
           | None \<Rightarrow>
               emit OnSettled (emit (OnSuccess Void)
                 ((stop_tracks (stream sess) w1)\<lparr>currentSession := None\<rparr>))))"

text \<open>
  The \<^verbatim>\<open>dataavailable\<close> listener that \<^verbatim>\<open>startRecording\<close> attaches to every
  recorder. It reads \<^verbatim>\<open>currentSession\<close> when the event arrives.
\<close>

definition on_dataavailable :: "blob \<Rightarrow> world \<Rightarrow> world" where
  "on_dataavailable event_data w =
     (case currentSession w of
        None \<Rightarrow> w
      | Some sess \<Rightarrow>
          if blob_size event_data = 0 then w
          else
            (case recorder sess of
               None \<Rightarrow> w
             | Some r \<Rightarrow>
                 w\<lparr>currentSession :=
                     Some (sess\<lparr>recorder :=
                       Some (r\<lparr>recordedChunks := recordedChunks r @ [event_data]\<rparr>)\<rparr>)\<rparr>))"

text \<open>
  The event as the browser fires it at recorder \<open>r\<close>: every recorder that
  \<^verbatim>\<open>startRecording\<close> has built carries the listener, and the listener does not
  read which recorder fired.
\<close>

definition dataavailable_at :: "nat \<Rightarrow> blob \<Rightarrow> world \<Rightarrow> world" where
  "dataavailable_at r event_data w =
     (if r < next_recorder w then on_dataavailable event_data w else w)"

text \<open>
  The callbacks \<^verbatim>\<open>startRecording\<close> hands to stream acquisition when the held
  stream is no longer active: success replaces the session, failure is reported to the
  caller of \<^verbatim>\<open>startRecording\<close>.
\<close>

definition refresh_callbacks :: "recording_session_settings \<Rightarrow> callbacks" where
  "refresh_callbacks st =
     \<lparr>cb_onMutate = (\<lambda>v. v),
      cb_onSuccess = (\<lambda>strm v.
         v\<lparr>currentSession := Some \<lparr>settings = st, stream = strm, recorder = None\<rparr>\<rparr>),
      cb_onError = (\<lambda>err. emit (OnError (WhisperingError MicrophoneAccessError (Some err)))),
      cb_onSettled = (\<lambda>v. v)\<rparr>"

text \<open>
  \<open>strm\<close> and \<open>st\<close> are the constants the source destructures from the session
  before the staleness check; the recorder is built from them afterwards. An exception
  of \<^verbatim>\<open>newRecorder.start\<close> leaves the function at once: the promise of the
  operation rejects (\<open>Uncaught\<close>) and no further callback is invoked. The
  assignment to \<^verbatim>\<open>currentSession.recorder\<close> finds a session: one was there on
  entry and the refresh can only replace it.
\<close>

definition startRecording :: "env \<Rightarrow> string \<Rightarrow> world \<Rightarrow> world" where
  "startRecording e rid w =
     (let w1 = emit OnMutate w in
      case currentSession w1 of
        None \<Rightarrow> emit OnSettled (emit (OnError (WhisperingError NoActiveSession None)) w1)
      | Some sess \<Rightarrow>
          (let strm = stream sess;
               st = settings sess;
               w2 = (if \<not> active (streams w1 strm)
                     then acquireStreamAndSetUpRecordingSession e st (refresh_callbacks st)
                            (emit (Toast (ToastLoading RecordingSessionExpired)) w1)
                     else w1)
           in
             if \<not> new_recorder_ok e
             then emit OnSettled
                    (emit (OnError (WhisperingError RecordingSetupFailed (Some DOMException))) w2)
             else
               (let newRecorder = next_recorder w2;
                    w3 = w2\<lparr>recorders := (recorders w2)
                              (newRecorder :=
                                 \<lparr>mr_stream = strm,
                                  mr_bitsPerSecond = bitsPerSecond st,
                                  mr_mimeType = recorder_mimeType e,
                                  mr_state = Inactive,
                                  mr_timeslice = None\<rparr>),
                            next_recorder := Suc newRecorder\<rparr>;
                    w4 = w3\<lparr>currentSession :=
                              map_option
                                (\<lambda>cur. cur\<lparr>recorder :=
                                   Some \<lparr>mediaRecorder = newRecorder,
                                         recordedChunks = [],
                                         recordingId = rid\<rparr>\<rparr>)
                                (currentSession w3)\<rparr>;
                    w5 = recorder_start newRecorder TIMESLICE_MS w4
                in if recorder_start_ok e
                   then emit OnSettled (emit (OnSuccess Void) w5)
                   else emit (Uncaught DOMException) w4)))"

text \<open>
  \<^verbatim>\<open>stopRecording\<close> awaits a promise that its \<^verbatim>\<open>stop\<close> listener settles. A
  recording recorder answers \<^verbatim>\<open>stop()\<close> with a last \<^verbatim>\<open>dataavailable\<close> event
  (the \<open>stop_flush\<close> of the environment) followed by \<^verbatim>\<open>stop\<close>. A recorder that
  is not recording fires nothing: the promise stays pending and the operation invokes
  no further callback. The promise's executor repeats the check the function has just
  made, with the same answer. \<open>stop_listener\<close> is the listener together with what
  the function does once the promise is settled.
\<close>

definition stop_listener :: "world \<Rightarrow> world" where
  "stop_listener w =
     (case currentSession w of
        None \<Rightarrow>
          emit OnSettled (emit (OnError (WhisperingError RecordingStopFailed
            (Some (JsError ''Media recorder was nullified before stop event listener'')))) w)
      | Some sess \<Rightarrow>
          (case recorder sess of
             None \<Rightarrow>
               emit OnSettled (emit (OnError (WhisperingError RecordingStopFailed
                 (Some (JsError ''Media recorder was nullified before stop event listener'')))) w)
           | Some r \<Rightarrow>
               emit OnSettled
                 (emit (OnSuccess (Artifact (new_Blob (recordedChunks r)
                          (mr_mimeType (recorders w (mediaRecorder r)))))) w)))"

definition stopRecording :: "env \<Rightarrow> world \<Rightarrow> world" where
  "stopRecording e w =
     (let w1 = emit OnMutate w in
      case currentSession w1 of
        None \<Rightarrow> emit OnSettled (emit (OnError (WhisperingError NothingToStop None)) w1)
      | Some sess \<Rightarrow>
          (case recorder sess of
             None \<Rightarrow> emit OnSettled (emit (OnError (WhisperingError NothingToStop None)) w1)
           | Some r \<Rightarrow>
               (case mr_state (recorders w1 (mediaRecorder r)) of
                  Inactive \<Rightarrow> w1
                | Recording \<Rightarrow>
                    stop_listener
                      (on_dataavailable (stop_flush e)
                         (recorder_stop (mediaRecorder r) w1)))))"

definition cancelRecording :: "world \<Rightarrow> world" where
  "cancelRecording w =
     (let w1 = emit OnMutate w in
      case currentSession w1 of
        None \<Rightarrow> emit OnSettled (emit (OnError (WhisperingError NothingToCancel None)) w1)
      | Some sess \<Rightarrow>
          (case recorder sess of
             None \<Rightarrow> emit OnSettled (emit (OnError (WhisperingError NothingToCancel None)) w1)
           | Some r \<Rightarrow>
               (let w2 = stop_tracks (stream sess) w1;
                    w3 = recorder_stop (mediaRecorder r) w2;
                    w4 = w3\<lparr>currentSession := Some (sess\<lparr>recorder := None\<rparr>)\<rparr>
                in emit OnSettled (emit (OnSuccess Void) w4))))"

text \<open>
  A name for a part of \<^verbatim>\<open>startRecording\<close>: the world in which it builds its
  recorder, after the staleness check and the refresh that may follow.
\<close>

definition before_recorder :: "env \<Rightarrow> recording_session \<Rightarrow> world \<Rightarrow> world" where
  "before_recorder e sess w =
     (if \<not> active (streams w (stream sess))
      then acquireStreamAndSetUpRecordingSession e (settings sess)
             (refresh_callbacks (settings sess))
             (emit (Toast (ToastLoading RecordingSessionExpired)) (emit OnMutate w))
      else emit OnMutate w)"

subsection \<open>Histories\<close>

text \<open>
  What can happen to the service: a caller invokes one of the five operations, or a
  recorder fires \<^verbatim>\<open>dataavailable\<close> and the listener runs.
\<close>

datatype action =
    Init env recording_session_settings
  | Close
  | Start env string
  | Stop env
  | Cancel
  | DataAvailable blob

fun step :: "action \<Rightarrow> world \<Rightarrow> world" where
  "step (Init e st) w = initRecordingSession e st w"
| "step Close w = closeRecordingSession w"
| "step (Start e rid) w = startRecording e rid w"
| "step (Stop e) w = stopRecording e w"
| "step Cancel w = cancelRecording w"
| "step (DataAvailable event_data) w = on_dataavailable event_data w"

definition run :: "action list \<Rightarrow> world \<Rightarrow> world" where
  "run acts w = fold step acts w"

text \<open>The chunk list of the active capture, empty when there is none.\<close>

definition held_chunks :: "world \<Rightarrow> blob list" where
  "held_chunks w =
     (case currentSession w of
        None \<Rightarrow> []
      | Some sess \<Rightarrow> (case recorder sess of None \<Rightarrow> [] | Some r \<Rightarrow> recordedChunks r))"

text \<open>No chunk of size zero is held.\<close>

definition chunks_nonempty :: "world \<Rightarrow> bool" where
  "chunks_nonempty w = (\<forall>c\<in>set (held_chunks w). blob_size c \<noteq> 0)"

text \<open>The completion callbacks in a trace: every \<open>OnSuccess\<close> and every \<open>OnError\<close>.\<close>

definition completions :: "event list \<Rightarrow> event list" where
  "completions tr =
     filter (\<lambda>ev. case ev of OnSuccess p \<Rightarrow> True | OnError x \<Rightarrow> True | _ \<Rightarrow> False) tr"

subsection \<open>The fallback, in the words of the specification\<close>

text \<open>
  The devices the fallback knows: the audio inputs of a successful enumeration, in
  listed order. The attempts it makes among them: each device in turn, up to and
  including the first that yields a stream.
\<close>

definition spec_known_devices :: "env \<Rightarrow> string list" where
  "spec_known_devices e =
     (if gum_audio_ok e
      then (case enumerate_devices e of
              None \<Rightarrow> []
            | Some devices \<Rightarrow>
                map dev_deviceId (filter (\<lambda>device. dev_kind device = AudioInput) devices))
      else [])"

definition spec_attempts :: "(string \<Rightarrow> bool) \<Rightarrow> string list \<Rightarrow> string list" where
  "spec_attempts ok ds =
     takeWhile (\<lambda>d. \<not> ok d) ds @ take 1 (dropWhile (\<lambda>d. \<not> ok d) ds)"

definition spec_fallback_calls :: "env \<Rightarrow> platform_call list" where
  "spec_fallback_calls e =
     GetUserMediaAudio #
       (if gum_audio_ok e
        then EnumerateDevices #
               map GetUserMediaExact (spec_attempts (gum_exact_ok e) (spec_known_devices e))
        else [])"

subsection \<open>Example worlds\<close>

text \<open>
  \<open>fresh_world\<close> is the service as \<^verbatim>\<open>createMediaRecorderServiceWeb\<close> returns it,
  in a browser that has handed out no stream and no recorder yet. In \<open>studio_env\<close>
  two microphones are listed and only the headset yields a stream; in
  \<open>unplugged_env\<close> no request for a stream succeeds.
\<close>

definition fresh_world :: world where
  "fresh_world =
     \<lparr>currentSession = None,
      streams = (\<lambda>_. \<lparr>ms_device = None, ms_tracks = []\<rparr>),
      recorders = (\<lambda>_. \<lparr>mr_stream = 0, mr_bitsPerSecond = 0, mr_mimeType = [],
                          mr_state = Inactive, mr_timeslice = None\<rparr>),
      next_stream = 0, next_recorder = 0, trace = []\<rparr>"

definition studio_env :: env where
  "studio_env =
     \<lparr>gum_audio_ok = True,
      enumerate_devices = Some
        [\<lparr>dev_deviceId = ''D1'', dev_kind = AudioInput, dev_label = ''Desk microphone''\<rparr>,
         \<lparr>dev_deviceId = ''S1'', dev_kind = AudioOutput, dev_label = ''Speakers''\<rparr>,
         \<lparr>dev_deviceId = ''D2'', dev_kind = AudioInput, dev_label = ''Headset''\<rparr>],
      gum_exact_ok = (\<lambda>d. d = ''D2''),
      new_recorder_ok = True,
      recorder_start_ok = True,
      recorder_mimeType = ''audio/webm'',
      stop_flush = \<lparr>blob_data = [9], blob_type = ''audio/webm''\<rparr>\<rparr>"

definition unplugged_env :: env where
  "unplugged_env =
     \<lparr>gum_audio_ok = False,
      enumerate_devices = None,
      gum_exact_ok = (\<lambda>d. False),
      new_recorder_ok = True,
      recorder_start_ok = True,
      recorder_mimeType = ''audio/webm'',
      stop_flush = \<lparr>blob_data = [], blob_type = ''audio/webm''\<rparr>\<rparr>"

definition headset :: recording_session_settings where
  "headset = \<lparr>deviceId = ''D2'', bitsPerSecond = 128000\<rparr>"

definition auto_device :: recording_session_settings where
  "auto_device = \<lparr>deviceId = [], bitsPerSecond = 128000\<rparr>"

text \<open>\<open>studio_env\<close> with a recorder whose mime type has capital letters.\<close>

definition mixed_case_env :: env where
  "mixed_case_env = studio_env\<lparr>recorder_mimeType := ''audio/WebM;codecs=Opus''\<rparr>"

text \<open>
  Two worlds a caller reaches from \<open>fresh_world\<close>: \<open>capturing_world\<close> after
  \<^verbatim>\<open>init\<close> and \<^verbatim>\<open>start\<close>, and \<open>cancelled_world\<close> after a following
  \<^verbatim>\<open>cancel\<close>, where the session is open and its stream has ended.
\<close>

definition capturing_world :: world where
  "capturing_world =
     startRecording studio_env ''c1'' (initRecordingSession studio_env headset fresh_world)"

definition cancelled_world :: world where
  "cancelled_world = cancelRecording capturing_world"

section \<open>Properties\<close>

subsection \<open>Evaluation and frame facts\<close>

lemmas model_defs =
  initRecordingSession_def closeRecordingSession_def startRecording_def stopRecording_def
  cancelRecording_def on_dataavailable_def stop_listener_def
  acquireStreamAndSetUpRecordingSession_def getFirstAvailableStream_def
  getStreamForDeviceId_def new_stream_def stop_tracks_def recorder_start_def
  recorder_stop_def emit_def active_def new_Blob_def blob_size_def
  blob_type_option_def printable_ascii_def ascii_lowercase_def
  init_callbacks_def refresh_callbacks_def report_def Let_def

lemmas example_defs =
  fresh_world_def studio_env_def unplugged_env_def headset_def auto_device_def
  capturing_world_def cancelled_world_def mixed_case_env_def

lemma emit_fields [simp]:
  "currentSession (emit ev w) = currentSession w"
  "streams (emit ev w) = streams w"
  "recorders (emit ev w) = recorders w"
  "next_stream (emit ev w) = next_stream w"
  "next_recorder (emit ev w) = next_recorder w"
  "trace (emit ev w) = trace w @ [ev]"
  by (simp_all add: emit_def)

lemma stop_tracks_fields [simp]:
  "currentSession (stop_tracks r w) = currentSession w"
  "recorders (stop_tracks r w) = recorders w"
  "next_stream (stop_tracks r w) = next_stream w"
  "next_recorder (stop_tracks r w) = next_recorder w"
  "trace (stop_tracks r w) = trace w"
  by (simp_all add: stop_tracks_def)

lemma stop_tracks_streams:
  "ms_tracks (streams (stop_tracks r w) r) = map (\<lambda>_. Ended) (ms_tracks (streams w r))"
  "ms_device (streams (stop_tracks r w) r) = ms_device (streams w r)"
  "r' \<noteq> r \<Longrightarrow> streams (stop_tracks r w) r' = streams w r'"
  by (simp_all add: stop_tracks_def)

lemma recorder_stop_fields [simp]:
  "currentSession (recorder_stop r w) = currentSession w"
  "streams (recorder_stop r w) = streams w"
  "next_stream (recorder_stop r w) = next_stream w"
  "next_recorder (recorder_stop r w) = next_recorder w"
  "trace (recorder_stop r w) = trace w"
  "mr_state (recorders (recorder_stop r w) r) = Inactive"
  "mr_mimeType (recorders (recorder_stop r w) r') = mr_mimeType (recorders w r')"
  by (simp_all add: recorder_stop_def)

lemma recorder_start_fields [simp]:
  "currentSession (recorder_start r ms w) = currentSession w"
  "streams (recorder_start r ms w) = streams w"
  "next_stream (recorder_start r ms w) = next_stream w"
  "next_recorder (recorder_start r ms w) = next_recorder w"
  "trace (recorder_start r ms w) = trace w"
  "mr_state (recorders (recorder_start r ms w) r) = Recording"
  "mr_mimeType (recorders (recorder_start r ms w) r') = mr_mimeType (recorders w r')"
  "mr_stream (recorders (recorder_start r ms w) r') = mr_stream (recorders w r')"
  "mr_bitsPerSecond (recorders (recorder_start r ms w) r') = mr_bitsPerSecond (recorders w r')"
  by (simp_all add: recorder_start_def)

text \<open>A type of printable ASCII without capital letters is kept as it is.\<close>

lemma ascii_lowercase_id:
  "c \<notin> set ''ABCDEFGHIJKLMNOPQRSTUVWXYZ'' \<Longrightarrow> ascii_lowercase c = c"
proof -
  assume "c \<notin> set ''ABCDEFGHIJKLMNOPQRSTUVWXYZ''"
  then have "map_of (zip ''ABCDEFGHIJKLMNOPQRSTUVWXYZ'' ''abcdefghijklmnopqrstuvwxyz'') c = None"
    by (subst map_of_zip_is_None) simp_all
  then show ?thesis by (simp add: ascii_lowercase_def)
qed

lemma blob_type_option_id:
  assumes "list_all printable_ascii ty"
    and "\<forall>c\<in>set ty. c \<notin> set ''ABCDEFGHIJKLMNOPQRSTUVWXYZ''"
  shows "blob_type_option ty = ty"
proof -
  from assms(2) have "map ascii_lowercase ty = ty"
    by (induction ty) (simp_all add: ascii_lowercase_id)
  with assms(1) show ?thesis by (simp add: blob_type_option_def)
qed

text \<open>What a request for a stream leaves alone.\<close>

lemma getStreamForDeviceId_frame:
  assumes "getStreamForDeviceId e d w = (res, w')"
  shows "currentSession w' = currentSession w"
    and "recorders w' = recorders w"
    and "next_recorder w' = next_recorder w"
  using assms by (auto simp: getStreamForDeviceId_def new_stream_def Let_def split: if_splits)

lemma try_devices_frame:
  assumes "try_devices e ds w = (res, w')"
  shows "currentSession w' = currentSession w \<and> recorders w' = recorders w
         \<and> next_recorder w' = next_recorder w"
  using assms
proof (induction ds arbitrary: w)
  case Nil
  then show ?case by simp
next
  case (Cons d ds)
  obtain r1 w1 where g: "getStreamForDeviceId e (dev_deviceId d) w = (r1, w1)"
    by (cases "getStreamForDeviceId e (dev_deviceId d) w")
  note fr = getStreamForDeviceId_frame [OF g]
  show ?case
  proof (cases r1)
    case (Inl err)
    with Cons.prems g have "try_devices e ds w1 = (res, w')" by simp
    from Cons.IH [OF this] fr show ?thesis by simp
  next
    case (Inr s)
    with Cons.prems g have "w' = w1" by simp
    with fr show ?thesis by simp
  qed
qed

lemma getFirstAvailableStream_frame:
  assumes "getFirstAvailableStream e w = (res, w')"
  shows "currentSession w' = currentSession w"
    and "recorders w' = recorders w"
    and "next_recorder w' = next_recorder w"
  using assms
  by (auto simp: getFirstAvailableStream_def new_stream_def Let_def
           split: if_splits option.splits dest!: try_devices_frame)


text \<open>
  An invariant that only reads the session, the recorders and the recorder counter is
  kept by stream acquisition whenever the callbacks keep it.
\<close>

lemma acquire_invariant:
  assumes frame: "\<And>v v'. P v \<Longrightarrow> currentSession v' = currentSession v \<Longrightarrow>
            recorders v' = recorders v \<Longrightarrow> next_recorder v' = next_recorder v \<Longrightarrow> P v'"
    and mut: "\<And>v. P v \<Longrightarrow> P (cb_onMutate cb v)"
    and suc: "\<And>s v. P v \<Longrightarrow> P (cb_onSuccess cb s v)"
    and err: "\<And>x v. P v \<Longrightarrow> P (cb_onError cb x v)"
    and set: "\<And>v. P v \<Longrightarrow> P (cb_onSettled cb v)"
    and init: "P w"
  shows "P (acquireStreamAndSetUpRecordingSession e st cb w)"
proof -
  have em: "\<And>ev v. P v \<Longrightarrow> P (emit ev v)"
    by (rule frame) simp_all
  have gs: "\<And>d v res v'. P v \<Longrightarrow> getStreamForDeviceId e d v = (res, v') \<Longrightarrow> P v'"
    by (rule frame) (simp_all add: getStreamForDeviceId_frame)
  have gf: "\<And>v res v'. P v \<Longrightarrow> getFirstAvailableStream e v = (res, v') \<Longrightarrow> P v'"
    by (rule frame) (simp_all add: getFirstAvailableStream_frame)
  have fin_err: "\<And>x v. P v \<Longrightarrow> P (cb_onSettled cb (cb_onError cb x v))"
    by (intro set err)
  have fin_suc: "\<And>s v. P v \<Longrightarrow> P (cb_onSettled cb (cb_onSuccess cb s v))"
    by (intro set suc)
  have fallback: "P (case getFirstAvailableStream e v of
                       (Inl x, v') \<Rightarrow>
                         cb_onSettled cb
                           (cb_onError cb (WhisperingError ErrorAcquiringStream (Some x)) v')
                     | (Inr s, v') \<Rightarrow>
                         cb_onSettled cb (cb_onSuccess cb s
                           (emit (Toast (ToastInfo DefaultedToFirstAvailableDevice)) v')))"
    if "P v" for v
  proof -
    obtain res v' where g: "getFirstAvailableStream e v = (res, v')"
      by (cases "getFirstAvailableStream e v")
    from gf [OF that g] have "P v'" .
    then show ?thesis
      using g by (cases res) (simp_all add: fin_err fin_suc em)
  qed
  have p1: "P (cb_onMutate cb w)" by (rule mut [OF init])
  show ?thesis
  proof (cases "deviceId st = []")
    case True
    then show ?thesis
      by (simp add: acquireStreamAndSetUpRecordingSession_def Let_def fallback em p1)
  next
    case False
    let ?w2 = "emit (Toast (ToastLoading ConnectingToSelectedDevice)) (cb_onMutate cb w)"
    obtain res w3 where g: "getStreamForDeviceId e (deviceId st) ?w2 = (res, w3)"
      by (cases "getStreamForDeviceId e (deviceId st) ?w2")
    have "P ?w2" by (rule em [OF p1])
    from gs [OF this g] have p3: "P w3" .
    show ?thesis
      using False g p3
      by (cases res)
         (simp_all add: acquireStreamAndSetUpRecordingSession_def Let_def fallback em fin_suc)
  qed
qed


lemma refresh_callbacks_simps [simp]:
  "cb_onMutate (refresh_callbacks st) = (\<lambda>v. v)"
  "cb_onSuccess (refresh_callbacks st) = (\<lambda>strm v.
      v\<lparr>currentSession := Some \<lparr>settings = st, stream = strm, recorder = None\<rparr>\<rparr>)"
  "cb_onError (refresh_callbacks st) =
     (\<lambda>err. emit (OnError (WhisperingError MicrophoneAccessError (Some err))))"
  "cb_onSettled (refresh_callbacks st) = (\<lambda>v. v)"
  by (simp_all add: refresh_callbacks_def)

lemma init_callbacks_simps [simp]:
  "cb_onMutate (init_callbacks st) = (\<lambda>v. v)"
  "cb_onSuccess (init_callbacks st) = (\<lambda>strm v.
      emit (OnSuccess Void)
        (v\<lparr>currentSession := Some \<lparr>settings = st, stream = strm, recorder = None\<rparr>\<rparr>))"
  "cb_onError (init_callbacks st) =
     (\<lambda>err. emit (OnError (WhisperingError MicrophoneAccessError (Some err))))"
  "cb_onSettled (init_callbacks st) = (\<lambda>v. v)"
  by (simp_all add: init_callbacks_def)

lemma before_recorder_frame:
  assumes "currentSession w = Some sess"
  shows "map_option settings (currentSession (before_recorder e sess w)) = Some (settings sess)
         \<and> recorders (before_recorder e sess w) = recorders w
         \<and> next_recorder (before_recorder e sess w) = next_recorder w"
proof (cases "active (streams w (stream sess))")
  case True
  with assms show ?thesis by (simp add: before_recorder_def)
next
  case False
  let ?P = "\<lambda>v. map_option settings (currentSession v) = Some (settings sess)
                 \<and> recorders v = recorders w \<and> next_recorder v = next_recorder w"
  have "?P (acquireStreamAndSetUpRecordingSession e (settings sess)
             (refresh_callbacks (settings sess))
             (emit (Toast (ToastLoading RecordingSessionExpired)) (emit OnMutate w)))"
    by (rule acquire_invariant [where P = ?P]) (simp_all add: assms)
  with False show ?thesis by (simp add: before_recorder_def)
qed

lemma startRecording_unfold:
  assumes sess: "currentSession w = Some sess" and ok: "new_recorder_ok e"
  shows "\<exists>cur w2. settings cur = settings sess
           \<and> recorders w2 = recorders w
           \<and> startRecording e rid w =
               (let w4 = w2\<lparr>recorders := (recorders w)
                       (next_recorder w :=
                          \<lparr>mr_stream = stream sess,
                           mr_bitsPerSecond = bitsPerSecond (settings sess),
                           mr_mimeType = recorder_mimeType e,
                           mr_state = Inactive, mr_timeslice = None\<rparr>),
                     next_recorder := Suc (next_recorder w),
                     currentSession :=
                       Some (cur\<lparr>recorder := Some \<lparr>mediaRecorder = next_recorder w,
                               recordedChunks = [], recordingId = rid\<rparr>\<rparr>)\<rparr>
                in if recorder_start_ok e
                   then emit OnSettled (emit (OnSuccess Void)
                          (recorder_start (next_recorder w) TIMESLICE_MS w4))
                   else emit (Uncaught DOMException) w4)"
proof -
  let ?w2 = "before_recorder e sess w"
  from before_recorder_frame [OF sess, of e]
  obtain cur where cur: "currentSession ?w2 = Some cur" and st: "settings cur = settings sess"
    and rec: "recorders ?w2 = recorders w" and nxt: "next_recorder ?w2 = next_recorder w"
    by auto
  have "startRecording e rid w =
               (let w4 = ?w2\<lparr>recorders := (recorders w)
                       (next_recorder w :=
                          \<lparr>mr_stream = stream sess,
                           mr_bitsPerSecond = bitsPerSecond (settings sess),
                           mr_mimeType = recorder_mimeType e,
                           mr_state = Inactive, mr_timeslice = None\<rparr>),
                     next_recorder := Suc (next_recorder w),
                     currentSession :=
                       Some (cur\<lparr>recorder := Some \<lparr>mediaRecorder = next_recorder w,
                               recordedChunks = [], recordingId = rid\<rparr>\<rparr>)\<rparr>
                in if recorder_start_ok e
                   then emit OnSettled (emit (OnSuccess Void)
                          (recorder_start (next_recorder w) TIMESLICE_MS w4))
                   else emit (Uncaught DOMException) w4)"
    using sess ok cur rec nxt
    by (simp add: startRecording_def before_recorder_def Let_def)
  with st rec show ?thesis by blast
qed

lemma startRecording_opens:
  assumes sess: "currentSession w = Some sess" and ok: "new_recorder_ok e"
  shows "\<exists>cur. currentSession (startRecording e rid w) = Some cur
           \<and> settings cur = settings sess
           \<and> recorder cur = Some \<lparr>mediaRecorder = next_recorder w,
                                   recordedChunks = [], recordingId = rid\<rparr>"
    and "recorder_start_ok e \<Longrightarrow>
         recorders (startRecording e rid w) (next_recorder w) =
           \<lparr>mr_stream = stream sess, mr_bitsPerSecond = bitsPerSecond (settings sess),
            mr_mimeType = recorder_mimeType e, mr_state = Recording,
            mr_timeslice = Some TIMESLICE_MS\<rparr>"
    and "mr_stream (recorders (startRecording e rid w) (next_recorder w)) = stream sess"
    and "mr_bitsPerSecond (recorders (startRecording e rid w) (next_recorder w)) =
           bitsPerSecond (settings sess)"
proof -
  from startRecording_unfold [OF sess ok, of rid]
  obtain cur w2 where st: "settings cur = settings sess"
    and unfold: "startRecording e rid w =
               (let w4 = w2\<lparr>recorders := (recorders w)
                       (next_recorder w :=
                          \<lparr>mr_stream = stream sess,
                           mr_bitsPerSecond = bitsPerSecond (settings sess),
                           mr_mimeType = recorder_mimeType e,
                           mr_state = Inactive, mr_timeslice = None\<rparr>),
                     next_recorder := Suc (next_recorder w),
                     currentSession :=
                       Some (cur\<lparr>recorder := Some \<lparr>mediaRecorder = next_recorder w,
                               recordedChunks = [], recordingId = rid\<rparr>\<rparr>)\<rparr>
                in if recorder_start_ok e
                   then emit OnSettled (emit (OnSuccess Void)
                          (recorder_start (next_recorder w) TIMESLICE_MS w4))
                   else emit (Uncaught DOMException) w4)"
    by blast
  show "\<exists>cur. currentSession (startRecording e rid w) = Some cur
           \<and> settings cur = settings sess
           \<and> recorder cur = Some \<lparr>mediaRecorder = next_recorder w,
                                   recordedChunks = [], recordingId = rid\<rparr>"
    by (subst unfold) (simp add: st Let_def)
  show "recorders (startRecording e rid w) (next_recorder w) =
           \<lparr>mr_stream = stream sess, mr_bitsPerSecond = bitsPerSecond (settings sess),
            mr_mimeType = recorder_mimeType e, mr_state = Recording,
            mr_timeslice = Some TIMESLICE_MS\<rparr>"
    if "recorder_start_ok e"
    using that by (subst unfold) (simp add: recorder_start_def Let_def)
  show "mr_stream (recorders (startRecording e rid w) (next_recorder w)) = stream sess"
    by (subst unfold) (simp add: Let_def)
  show "mr_bitsPerSecond (recorders (startRecording e rid w) (next_recorder w)) =
           bitsPerSecond (settings sess)"
    by (subst unfold) (simp add: Let_def)
qed

text \<open>Deliveries while a capture is active: the chunks of non-zero size are appended.\<close>

lemma deliveries:
  assumes "currentSession w = Some sess" and "recorder sess = Some r"
  shows "fold on_dataavailable cs w =
           w\<lparr>currentSession :=
               Some (sess\<lparr>recorder :=
                 Some (r\<lparr>recordedChunks :=
                    recordedChunks r @ filter (\<lambda>c. blob_size c \<noteq> 0) cs\<rparr>)\<rparr>)\<rparr>"
  using assms
proof (induction cs arbitrary: w sess r)
  case Nil
  then show ?case by simp
next
  case (Cons c cs)
  show ?case
  proof (cases "blob_size c = 0")
    case True
    with Cons.prems have "on_dataavailable c w = w"
      by (simp add: on_dataavailable_def)
    with Cons.IH [OF Cons.prems] True show ?thesis by simp
  next
    case False
    let ?r = "r\<lparr>recordedChunks := recordedChunks r @ [c]\<rparr>"
    let ?s = "sess\<lparr>recorder := Some ?r\<rparr>"
    from False Cons.prems have step: "on_dataavailable c w = w\<lparr>currentSession := Some ?s\<rparr>"
      by (simp add: on_dataavailable_def)
    have "fold on_dataavailable cs (w\<lparr>currentSession := Some ?s\<rparr>) =
            (w\<lparr>currentSession := Some ?s\<rparr>)\<lparr>currentSession :=
               Some (?s\<lparr>recorder :=
                 Some (?r\<lparr>recordedChunks :=
                    recordedChunks ?r @ filter (\<lambda>c. blob_size c \<noteq> 0) cs\<rparr>)\<rparr>)\<rparr>"
      by (rule Cons.IH) simp_all
    with step False show ?thesis by simp
  qed
qed

lemma concat_nonempty_chunks:
  "concat (map blob_data (filter (\<lambda>c. blob_size c \<noteq> 0) cs)) = concat (map blob_data cs)"
  by (induction cs) (simp_all add: blob_size_def)

text \<open>Stopping a recorder that records: the last chunk, then the artifact.\<close>

lemma stopRecording_recording:
  assumes "currentSession w = Some sess" and "recorder sess = Some r"
    and "mr_state (recorders w (mediaRecorder r)) = Recording"
  shows "trace (stopRecording e w) =
           trace w @ [OnMutate,
             OnSuccess (Artifact
               \<lparr>blob_data = concat (map blob_data (recordedChunks r @ [stop_flush e])),
                blob_type = blob_type_option (mr_mimeType (recorders w (mediaRecorder r)))\<rparr>),
             OnSettled]"
  using assms
  by (simp add: stopRecording_def stop_listener_def on_dataavailable_def new_Blob_def
        blob_size_def Let_def)


lemma capture_artifact:
  assumes sess: "currentSession w = Some sess" and ok: "new_recorder_ok e"
    and start: "recorder_start_ok e"
  shows "trace (stopRecording e' (fold on_dataavailable cs (startRecording e rid w))) =
           trace (startRecording e rid w) @
             [OnMutate,
              OnSuccess (Artifact
                \<lparr>blob_data = concat (map blob_data (cs @ [stop_flush e'])),
                 blob_type = blob_type_option (recorder_mimeType e)\<rparr>),
              OnSettled]"
proof -
  let ?w1 = "startRecording e rid w"
  let ?r = "\<lparr>mediaRecorder = next_recorder w, recordedChunks = [], recordingId = rid\<rparr>"
  from startRecording_opens(1,2) [OF sess ok, of rid] start
  obtain cur where cur: "currentSession ?w1 = Some cur" and rec: "recorder cur = Some ?r"
    and obj: "recorders ?w1 (next_recorder w) =
           \<lparr>mr_stream = stream sess, mr_bitsPerSecond = bitsPerSecond (settings sess),
            mr_mimeType = recorder_mimeType e, mr_state = Recording,
            mr_timeslice = Some TIMESLICE_MS\<rparr>"
    by auto
  let ?r2 = "?r\<lparr>recordedChunks := recordedChunks ?r @ filter (\<lambda>c. blob_size c \<noteq> 0) cs\<rparr>"
  let ?w2 = "?w1\<lparr>currentSession := Some (cur\<lparr>recorder := Some ?r2\<rparr>)\<rparr>"
  have d: "fold on_dataavailable cs ?w1 = ?w2"
    by (rule deliveries [OF cur rec])
  have "trace (stopRecording e' ?w2) =
          trace ?w2 @ [OnMutate,
             OnSuccess (Artifact
               \<lparr>blob_data = concat (map blob_data (recordedChunks ?r2 @ [stop_flush e'])),
                blob_type = blob_type_option (mr_mimeType (recorders ?w2 (mediaRecorder ?r2)))\<rparr>),
             OnSettled]"
    by (rule stopRecording_recording [where sess = "cur\<lparr>recorder := Some ?r2\<rparr>"])
       (simp_all add: obj)
  with concat_nonempty_chunks [of cs] show ?thesis
    by (simp add: d obj)
qed

lemma getStreamForDeviceId_cases:
  "gum_exact_ok e d \<Longrightarrow>
     getStreamForDeviceId e d w =
       (Inr (next_stream w),
        (emit (Platform (GetUserMediaExact d)) w)
          \<lparr>streams := (streams w)(next_stream w := \<lparr>ms_device = Some d, ms_tracks = [Live]\<rparr>),
           next_stream := Suc (next_stream w)\<rparr>)"
  "\<not> gum_exact_ok e d \<Longrightarrow>
     getStreamForDeviceId e d w =
       (Inl (WhisperingError MicrophoneAccessError (Some DOMException)),
        emit (Platform (GetUserMediaExact d)) w)"
  by (simp_all add: getStreamForDeviceId_def new_stream_def Let_def)

lemma spec_attempts_simps [simp]:
  "spec_attempts ok [] = []"
  "spec_attempts ok (d # ds) = d # (if ok d then [] else spec_attempts ok ds)"
  by (simp_all add: spec_attempts_def)

lemma try_devices_trace:
  "trace (snd (try_devices e ds w)) =
     trace w @ map (\<lambda>d. Platform (GetUserMediaExact d))
       (spec_attempts (gum_exact_ok e) (map dev_deviceId ds))"
  by (induction ds arbitrary: w) (simp_all add: getStreamForDeviceId_cases)

lemma try_devices_none:
  "find (gum_exact_ok e) (map dev_deviceId ds) = None \<Longrightarrow>
     fst (try_devices e ds w) =
       Inl (WhisperingError MicrophoneAccessError
              (Some (JsError ''No available audio input devices'')))"
proof (induction ds arbitrary: w)
  case Nil
  then show ?case by simp
next
  case (Cons d ds)
  then have no: "\<not> gum_exact_ok e (dev_deviceId d)"
    and rest: "find (gum_exact_ok e) (map dev_deviceId ds) = None"
    by (simp_all split: if_splits)
  from Cons.IH [OF rest] no show ?case
    by (simp add: getStreamForDeviceId_cases)
qed

lemma try_devices_some:
  "find (gum_exact_ok e) (map dev_deviceId ds) = Some d \<Longrightarrow>
     \<exists>s. fst (try_devices e ds w) = Inr s
        \<and> streams (snd (try_devices e ds w)) s = \<lparr>ms_device = Some d, ms_tracks = [Live]\<rparr>"
proof (induction ds arbitrary: w)
  case Nil
  then show ?case by simp
next
  case (Cons x ds)
  show ?case
  proof (cases "gum_exact_ok e (dev_deviceId x)")
    case True
    with Cons.prems have "d = dev_deviceId x" by simp
    with True show ?thesis by (simp add: getStreamForDeviceId_cases)
  next
    case False
    with Cons.prems have "find (gum_exact_ok e) (map dev_deviceId ds) = Some d" by simp
    from Cons.IH [OF this] False show ?thesis
      by (simp add: getStreamForDeviceId_cases)
  qed
qed

lemma getFirstAvailableStream_trace:
  "trace (snd (getFirstAvailableStream e w)) = trace w @ map Platform (spec_fallback_calls e)"
  by (simp add: getFirstAvailableStream_def new_stream_def Let_def spec_fallback_calls_def
        spec_known_devices_def try_devices_trace comp_def split: option.splits)

lemma getFirstAvailableStream_none:
  assumes "find (gum_exact_ok e) (spec_known_devices e) = None"
  shows "\<exists>err. fst (getFirstAvailableStream e w) = Inl err"
proof (cases "gum_audio_ok e")
  case False
  then show ?thesis
    by (simp add: getFirstAvailableStream_def Let_def)
next
  case True
  show ?thesis
  proof (cases "enumerate_devices e")
    case None
    with True show ?thesis
      by (simp add: getFirstAvailableStream_def Let_def new_stream_def)
  next
    case (Some devices)
    with True assms
    have "find (gum_exact_ok e)
            (map dev_deviceId (filter (\<lambda>device. dev_kind device = AudioInput) devices)) = None"
      by (simp add: spec_known_devices_def)
    from try_devices_none [OF this] True Some show ?thesis
      by (simp add: getFirstAvailableStream_def Let_def new_stream_def)
  qed
qed

lemma getFirstAvailableStream_error:
  assumes "find (gum_exact_ok e) (spec_known_devices e) = None"
  shows "fst (getFirstAvailableStream e w) =
           Inl (if gum_audio_ok e \<and> enumerate_devices e \<noteq> None
                then WhisperingError MicrophoneAccessError
                       (Some (JsError ''No available audio input devices''))
                else WhisperingError ErrorEnumeratingAndAcquiring (Some DOMException))"
proof (cases "gum_audio_ok e")
  case False
  then show ?thesis
    by (simp add: getFirstAvailableStream_def Let_def)
next
  case True
  show ?thesis
  proof (cases "enumerate_devices e")
    case None
    with True show ?thesis
      by (simp add: getFirstAvailableStream_def Let_def new_stream_def)
  next
    case (Some devices)
    with True assms
    have "find (gum_exact_ok e)
            (map dev_deviceId (filter (\<lambda>device. dev_kind device = AudioInput) devices)) = None"
      by (simp add: spec_known_devices_def)
    from try_devices_none [OF this] True Some show ?thesis
      by (simp add: getFirstAvailableStream_def Let_def new_stream_def)
  qed
qed

lemma getFirstAvailableStream_some:
  assumes "find (gum_exact_ok e) (spec_known_devices e) = Some d"
  shows "\<exists>s. fst (getFirstAvailableStream e w) = Inr s
        \<and> streams (snd (getFirstAvailableStream e w)) s =
            \<lparr>ms_device = Some d, ms_tracks = [Live]\<rparr>"
proof -
  from assms have ok: "gum_audio_ok e"
    by (cases "gum_audio_ok e") (simp_all add: spec_known_devices_def)
  with assms obtain devices where en: "enumerate_devices e = Some devices"
    by (cases "enumerate_devices e") (simp_all add: spec_known_devices_def)
  with ok assms
  have "find (gum_exact_ok e)
          (map dev_deviceId (filter (\<lambda>device. dev_kind device = AudioInput) devices)) = Some d"
    by (simp add: spec_known_devices_def)
  from try_devices_some [OF this] ok en show ?thesis
    by (simp add: getFirstAvailableStream_def Let_def new_stream_def)
qed

subsection \<open>Capture\<close>

text \<open>
  Claim C1, as amended. Whenever a session exists and the browser builds and starts
  the recorder, \<^verbatim>\<open>startRecording\<close>, then any deliveries \<open>cs\<close>, then
  \<^verbatim>\<open>stopRecording\<close> end in success with one artifact: the data of the delivered
  chunks, in the order of delivery. Its type is the mime type of the recorder that the
  session holds in the form the \<^verbatim>\<open>Blob\<close> constructor gives a type: in ASCII
  lower case, or empty when the mime type has a character outside U+0020..U+007E. So
  the type is the recorder's mime type itself whenever that is printable ASCII without
  capital letters. The chunks delivered are \<open>cs\<close> followed by the last chunk the
  recorder hands over when it is stopped; a delivery of size zero adds nothing to the
  data.
\<close>

theorem start_then_stop_yields_concatenation:
  assumes "currentSession w = Some sess" and "new_recorder_ok e" and "recorder_start_ok e"
  shows "trace (stopRecording e' (fold on_dataavailable cs (startRecording e rid w))) =
           trace (startRecording e rid w) @
             [OnMutate,
              OnSuccess (Artifact
                \<lparr>blob_data = concat (map blob_data (cs @ [stop_flush e'])),
                 blob_type = blob_type_option (recorder_mimeType e)\<rparr>),
              OnSettled]
         \<and> (\<exists>cur r. currentSession (startRecording e rid w) = Some cur
               \<and> recorder cur = Some r
               \<and> mr_mimeType (recorders (startRecording e rid w) (mediaRecorder r)) =
                   recorder_mimeType e)
         \<and> (list_all printable_ascii (recorder_mimeType e)
              \<and> (\<forall>c\<in>set (recorder_mimeType e). c \<notin> set ''ABCDEFGHIJKLMNOPQRSTUVWXYZ'')
             \<longrightarrow> blob_type_option (recorder_mimeType e) = recorder_mimeType e)"
proof (intro conjI)
  show "trace (stopRecording e' (fold on_dataavailable cs (startRecording e rid w))) =
           trace (startRecording e rid w) @
             [OnMutate,
              OnSuccess (Artifact
                \<lparr>blob_data = concat (map blob_data (cs @ [stop_flush e'])),
                 blob_type = blob_type_option (recorder_mimeType e)\<rparr>),
              OnSettled]"
    by (rule capture_artifact [OF assms])
next
  from startRecording_opens(1,2) [OF assms(1,2), of rid] assms(3)
  show "\<exists>cur r. currentSession (startRecording e rid w) = Some cur
               \<and> recorder cur = Some r
               \<and> mr_mimeType (recorders (startRecording e rid w) (mediaRecorder r)) =
                   recorder_mimeType e"
    by auto
next
  show "list_all printable_ascii (recorder_mimeType e)
          \<and> (\<forall>c\<in>set (recorder_mimeType e). c \<notin> set ''ABCDEFGHIJKLMNOPQRSTUVWXYZ'')
        \<longrightarrow> blob_type_option (recorder_mimeType e) = recorder_mimeType e"
    by (simp add: blob_type_option_id)
qed

theorem start_then_stop_yields_concatenation_witness:
  "currentSession (initRecordingSession studio_env headset fresh_world) =
     Some \<lparr>settings = headset, stream = 0, recorder = None\<rparr>
   \<and> new_recorder_ok studio_env
   \<and> recorder_start_ok studio_env
   \<and> list_all printable_ascii (recorder_mimeType studio_env)
   \<and> blob_type_option (recorder_mimeType studio_env) = ''audio/webm''
   \<and> trace (stopRecording (studio_env\<lparr>stop_flush := \<lparr>blob_data = [], blob_type = []\<rparr>\<rparr>)
        (fold on_dataavailable
           [\<lparr>blob_data = [1, 2], blob_type = ''audio/webm''\<rparr>,
            \<lparr>blob_data = [3], blob_type = ''audio/webm''\<rparr>,
            \<lparr>blob_data = [4, 5, 6], blob_type = ''audio/webm''\<rparr>]
           (startRecording studio_env ''c1''
              (initRecordingSession studio_env headset fresh_world)))) =
       [OnMutate, Toast (ToastLoading ConnectingToSelectedDevice),
        Platform (GetUserMediaExact ''D2''), OnSuccess Void, OnSettled,
        OnMutate, OnSuccess Void, OnSettled,
        OnMutate,
        OnSuccess (Artifact \<lparr>blob_data = [1, 2, 3, 4, 5, 6], blob_type = ''audio/webm''\<rparr>),
        OnSettled]"
  using start_then_stop_yields_concatenation
    [of "initRecordingSession studio_env headset fresh_world"
        "\<lparr>settings = headset, stream = 0, recorder = None\<rparr>"
        studio_env
        "studio_env\<lparr>stop_flush := \<lparr>blob_data = [], blob_type = []\<rparr>\<rparr>"
        "[\<lparr>blob_data = [1, 2], blob_type = ''audio/webm''\<rparr>,
          \<lparr>blob_data = [3], blob_type = ''audio/webm''\<rparr>,
          \<lparr>blob_data = [4, 5, 6], blob_type = ''audio/webm''\<rparr>]"
        "''c1''"]
  by (simp add: model_defs example_defs)

text \<open>
  Claim C1 as it was stated has the artifact tagged with the recorder's mime type. A
  recorder whose mime type is \<^verbatim>\<open>audio/WebM;codecs=Opus\<close> yields an artifact of type
  \<^verbatim>\<open>audio/webm;codecs=opus\<close>.
\<close>

theorem artifact_tag_counterexample:
  "mr_mimeType (recorders
      (startRecording mixed_case_env ''c1''
         (initRecordingSession studio_env headset fresh_world)) 0) =
     ''audio/WebM;codecs=Opus''
   \<and> trace (stopRecording studio_env
        ((startRecording mixed_case_env ''c1''
            (initRecordingSession studio_env headset fresh_world))\<lparr>trace := []\<rparr>)) =
       [OnMutate,
        OnSuccess (Artifact \<lparr>blob_data = [9], blob_type = ''audio/webm;codecs=opus''\<rparr>),
        OnSettled]
   \<and> ''audio/webm;codecs=opus'' \<noteq> ''audio/WebM;codecs=Opus''"
  by (simp add: model_defs example_defs mixed_case_env_def)

subsection \<open>The session\<close>

text \<open>
  Claim C7. \<^verbatim>\<open>initRecordingSession\<close> called while a session exists reports
  ``session already active'' and settles; the world is otherwise unchanged, so the
  session is the same and no stream was requested (a request would show in the trace).
\<close>

theorem init_while_session_exists_is_rejected:
  assumes "currentSession w = Some sess"
  shows "initRecordingSession e st w =
           w\<lparr>trace := trace w @
               [OnMutate, OnError (WhisperingError SessionAlreadyActive None), OnSettled]\<rparr>"
  using assms by (simp add: initRecordingSession_def emit_def Let_def)

theorem init_while_session_exists_is_rejected_witness:
  "currentSession (initRecordingSession studio_env headset fresh_world) =
     Some \<lparr>settings = headset, stream = 0, recorder = None\<rparr>
   \<and> initRecordingSession unplugged_env headset
       (initRecordingSession studio_env headset fresh_world) =
     (initRecordingSession studio_env headset fresh_world)
       \<lparr>trace := trace (initRecordingSession studio_env headset fresh_world) @
           [OnMutate, OnError (WhisperingError SessionAlreadyActive None), OnSettled]\<rparr>"
  using init_while_session_exists_is_rejected
    [of "initRecordingSession studio_env headset fresh_world"
        "\<lparr>settings = headset, stream = 0, recorder = None\<rparr>" unplugged_env headset]
  by (simp add: model_defs example_defs)

text \<open>
  Claim C8. \<^verbatim>\<open>closeRecordingSession\<close> distinguishes three states. Without a
  session it reports ``no active session''. With a session that holds a recorder it
  reports ``recording in progress'' and changes nothing else. With a session that
  holds no recorder it stops every track of the held stream, forgets the session and
  reports success.
\<close>

theorem close_three_cases:
  "(currentSession w = None \<longrightarrow>
      closeRecordingSession w =
        w\<lparr>trace := trace w @ [OnMutate, OnError (WhisperingError NoActiveSession None)]\<rparr>)
   \<and> (\<forall>sess r. currentSession w = Some sess \<and> recorder sess = Some r \<longrightarrow>
      closeRecordingSession w =
        w\<lparr>trace := trace w @
            [OnMutate, OnError (WhisperingError RecordingInProgress None), OnSettled]\<rparr>)
   \<and> (\<forall>sess. currentSession w = Some sess \<and> recorder sess = None \<longrightarrow>
      currentSession (closeRecordingSession w) = None
      \<and> ms_tracks (streams (closeRecordingSession w) (stream sess)) =
          map (\<lambda>_. Ended) (ms_tracks (streams w (stream sess)))
      \<and> \<not> active (streams (closeRecordingSession w) (stream sess))
      \<and> trace (closeRecordingSession w) = trace w @ [OnMutate, OnSuccess Void, OnSettled])"
  by (auto simp: closeRecordingSession_def emit_def stop_tracks_def active_def Let_def)

theorem close_three_cases_witness:
  "currentSession fresh_world = None
   \<and> trace (closeRecordingSession fresh_world) =
       [OnMutate, OnError (WhisperingError NoActiveSession None)]
   \<and> currentSession (initRecordingSession studio_env headset fresh_world) =
       Some \<lparr>settings = headset, stream = 0, recorder = None\<rparr>
   \<and> currentSession
        (closeRecordingSession (initRecordingSession studio_env headset fresh_world)) = None
   \<and> ms_tracks (streams
        (closeRecordingSession (initRecordingSession studio_env headset fresh_world)) 0) =
       [Ended]
   \<and> currentSession
        (startRecording studio_env ''c1''
           (initRecordingSession studio_env headset fresh_world)) =
       Some \<lparr>settings = headset, stream = 0,
             recorder = Some \<lparr>mediaRecorder = 0, recordedChunks = [],
                               recordingId = ''c1''\<rparr>\<rparr>
   \<and> currentSession
        (closeRecordingSession
           (startRecording studio_env ''c1''
              (initRecordingSession studio_env headset fresh_world))) =
       currentSession
        (startRecording studio_env ''c1''
           (initRecordingSession studio_env headset fresh_world))"
  using close_three_cases [of fresh_world]
    close_three_cases [of "initRecordingSession studio_env headset fresh_world"]
    close_three_cases
      [of "startRecording studio_env ''c1''
             (initRecordingSession studio_env headset fresh_world)"]
  by (simp add: model_defs example_defs)

subsection \<open>Cancellation\<close>

lemma cancelRecording_active:
  assumes "currentSession w = Some sess" and "recorder sess = Some r"
  shows "cancelRecording w =
           (recorder_stop (mediaRecorder r) (stop_tracks (stream sess) w))
             \<lparr>currentSession := Some (sess\<lparr>recorder := None\<rparr>),
              trace := trace w @ [OnMutate, OnSuccess Void, OnSettled]\<rparr>"
  using assms
  by (simp add: cancelRecording_def emit_def stop_tracks_def recorder_stop_def Let_def)

lemma no_capture_drops:
  assumes "currentSession w = Some sess" and "recorder sess = None"
  shows "fold on_dataavailable cs w = w"
  using assms by (induction cs) (simp_all add: on_dataavailable_def)

lemma stopRecording_nothing:
  assumes "currentSession w = Some sess" and "recorder sess = None"
  shows "trace (stopRecording e w) =
           trace w @ [OnMutate, OnError (WhisperingError NothingToStop None), OnSettled]"
  using assms by (simp add: stopRecording_def Let_def)

text \<open>
  Claim C6, as amended. With an active capture (a session that holds a recorder,
  whatever its settings) \<^verbatim>\<open>cancelRecording\<close> succeeds and reports no artifact:
  every track of the session's stream is stopped, the recorder is stopped, and the
  session holds no recorder afterwards. A chunk that arrives after the cancellation
  and before the next \<^verbatim>\<open>startRecording\<close> is dropped, whichever recorder fires it,
  and a \<^verbatim>\<open>stopRecording\<close> that follows the cancellation fails with ``nothing to
  stop''. The artifact of a capture started later, whatever happens in between,
  consists of the chunks that arrive after that later start, whichever recorder
  delivers them: no chunk that arrived before it is part of it. Without an active
  capture \<^verbatim>\<open>cancelRecording\<close> reports ``nothing to cancel'' and changes nothing
  else.
\<close>

theorem cancel_discards_capture:
  "(\<forall>sess r. currentSession w = Some sess \<and> recorder sess = Some r \<longrightarrow>
      trace (cancelRecording w) = trace w @ [OnMutate, OnSuccess Void, OnSettled]
      \<and> currentSession (cancelRecording w) = Some (sess\<lparr>recorder := None\<rparr>)
      \<and> ms_tracks (streams (cancelRecording w) (stream sess)) =
          map (\<lambda>_. Ended) (ms_tracks (streams w (stream sess)))
      \<and> \<not> active (streams (cancelRecording w) (stream sess))
      \<and> mr_state (recorders (cancelRecording w) (mediaRecorder r)) = Inactive
      \<and> fold on_dataavailable late (cancelRecording w) = cancelRecording w
      \<and> dataavailable_at q chunk (cancelRecording w) = cancelRecording w
      \<and> trace (stopRecording e (cancelRecording w)) =
          trace (cancelRecording w) @
            [OnMutate, OnError (WhisperingError NothingToStop None), OnSettled]
      \<and> (\<forall>sess'. currentSession (run between (fold on_dataavailable late (cancelRecording w)))
                  = Some sess' \<and> new_recorder_ok e \<and> recorder_start_ok e \<longrightarrow>
          trace (stopRecording e'
                  (fold on_dataavailable cs
                     (startRecording e rid
                        (run between (fold on_dataavailable late (cancelRecording w)))))) =
            trace (startRecording e rid
                     (run between (fold on_dataavailable late (cancelRecording w)))) @
              [OnMutate,
               OnSuccess (Artifact
                 \<lparr>blob_data = concat (map blob_data (cs @ [stop_flush e'])),
                  blob_type = blob_type_option (recorder_mimeType e)\<rparr>),
               OnSettled]))
   \<and> (currentSession w = None \<or> (\<exists>sess. currentSession w = Some sess \<and> recorder sess = None)
      \<longrightarrow> cancelRecording w =
            w\<lparr>trace := trace w @
                [OnMutate, OnError (WhisperingError NothingToCancel None), OnSettled]\<rparr>)"
proof (intro conjI allI impI)
  fix sess r
  assume "currentSession w = Some sess \<and> recorder sess = Some r"
  then have sess: "currentSession w = Some sess" and r: "recorder sess = Some r" by simp_all
  note c = cancelRecording_active [OF sess r]
  have cur: "currentSession (cancelRecording w) = Some (sess\<lparr>recorder := None\<rparr>)"
    by (simp add: c)
  have none: "recorder (sess\<lparr>recorder := None\<rparr>) = None" by simp
  have late: "fold on_dataavailable late (cancelRecording w) = cancelRecording w"
    by (rule no_capture_drops [OF cur none])
  show "trace (cancelRecording w) = trace w @ [OnMutate, OnSuccess Void, OnSettled]"
    by (simp add: c)
  show "currentSession (cancelRecording w) = Some (sess\<lparr>recorder := None\<rparr>)"
    by (rule cur)
  show "ms_tracks (streams (cancelRecording w) (stream sess)) =
          map (\<lambda>_. Ended) (ms_tracks (streams w (stream sess)))"
    by (simp add: c stop_tracks_streams)
  show "\<not> active (streams (cancelRecording w) (stream sess))"
    by (auto simp: c stop_tracks_streams active_def)
  show "mr_state (recorders (cancelRecording w) (mediaRecorder r)) = Inactive"
    by (simp add: c)
  show "fold on_dataavailable late (cancelRecording w) = cancelRecording w"
    by (rule late)
  show "dataavailable_at q chunk (cancelRecording w) = cancelRecording w"
    using no_capture_drops [OF cur none, of "[chunk]"]
    by (simp add: dataavailable_at_def)
  show "trace (stopRecording e (cancelRecording w)) =
          trace (cancelRecording w) @
            [OnMutate, OnError (WhisperingError NothingToStop None), OnSettled]"
    by (rule stopRecording_nothing [OF cur none])
  show "trace (stopRecording e'
                  (fold on_dataavailable cs
                     (startRecording e rid
                        (run between (fold on_dataavailable late (cancelRecording w)))))) =
            trace (startRecording e rid
                     (run between (fold on_dataavailable late (cancelRecording w)))) @
              [OnMutate,
               OnSuccess (Artifact
                 \<lparr>blob_data = concat (map blob_data (cs @ [stop_flush e'])),
                  blob_type = blob_type_option (recorder_mimeType e)\<rparr>),
               OnSettled]"
    if "currentSession (run between (fold on_dataavailable late (cancelRecording w)))
          = Some sess' \<and> new_recorder_ok e \<and> recorder_start_ok e" for sess'
    using that by (intro capture_artifact) simp_all
next
  assume "currentSession w = None \<or> (\<exists>sess. currentSession w = Some sess \<and> recorder sess = None)"
  then show "cancelRecording w =
            w\<lparr>trace := trace w @
                [OnMutate, OnError (WhisperingError NothingToCancel None), OnSettled]\<rparr>"
    by (auto simp: cancelRecording_def emit_def Let_def)
qed

theorem cancel_discards_capture_witness:
  "currentSession capturing_world =
     Some \<lparr>settings = headset, stream = 0,
           recorder = Some \<lparr>mediaRecorder = 0, recordedChunks = [],
                             recordingId = ''c1''\<rparr>\<rparr>
   \<and> currentSession (cancelRecording capturing_world) =
       Some \<lparr>settings = headset, stream = 0, recorder = None\<rparr>
   \<and> ms_tracks (streams (cancelRecording capturing_world) 0) = [Ended]
   \<and> mr_state (recorders (cancelRecording capturing_world) 0) = Inactive
   \<and> held_chunks (fold on_dataavailable [\<lparr>blob_data = [7], blob_type = []\<rparr>]
         (cancelRecording capturing_world)) = []
   \<and> held_chunks (dataavailable_at 0 \<lparr>blob_data = [7], blob_type = []\<rparr>
         (cancelRecording capturing_world)) = []
   \<and> currentSession
        (run [Close, Init studio_env headset]
           (fold on_dataavailable [\<lparr>blob_data = [7], blob_type = []\<rparr>]
              (cancelRecording capturing_world))) =
       Some \<lparr>settings = headset, stream = 1, recorder = None\<rparr>
   \<and> new_recorder_ok studio_env \<and> recorder_start_ok studio_env
   \<and> OnSuccess (Artifact \<lparr>blob_data = [4, 5, 9], blob_type = ''audio/webm''\<rparr>)
       \<in> set (trace (stopRecording studio_env
            (fold on_dataavailable [\<lparr>blob_data = [4, 5], blob_type = []\<rparr>]
               (startRecording studio_env ''c2''
                  (run [Close, Init studio_env headset]
                     (fold on_dataavailable [\<lparr>blob_data = [7], blob_type = []\<rparr>]
                        (cancelRecording capturing_world)))))))
   \<and> currentSession fresh_world = None
   \<and> trace (cancelRecording fresh_world) =
       [OnMutate, OnError (WhisperingError NothingToCancel None), OnSettled]"
  using cancel_discards_capture
    [where w = capturing_world and late = "[\<lparr>blob_data = [7], blob_type = []\<rparr>]"
       and q = 0 and chunk = "\<lparr>blob_data = [7], blob_type = []\<rparr>"
       and e = studio_env and between = "[Close, Init studio_env headset]"
       and e' = studio_env and cs = "[\<lparr>blob_data = [4, 5], blob_type = []\<rparr>]"
       and rid = "''c2''"]
    cancel_discards_capture [where w = fresh_world]
  by (simp add: model_defs example_defs run_def held_chunks_def dataavailable_at_def)

text \<open>
  Claim C6 as it was stated has every chunk delivered after the cancellation dropped
  and absent from any later artifact. Here the caller cancels, closes, opens a new
  session and starts a second capture; only then the cancelled recorder (recorder 0,
  inactive) delivers its last chunk. The listener stores it with the second capture,
  and it is the first part of that capture's artifact.
\<close>

theorem late_chunk_counterexample:
  "mr_state (recorders cancelled_world 0) = Inactive
   \<and> held_chunks (dataavailable_at 0 \<lparr>blob_data = [7], blob_type = ''audio/webm''\<rparr>
         (startRecording studio_env ''c2''
            (run [Close, Init studio_env headset] cancelled_world))) =
       [\<lparr>blob_data = [7], blob_type = ''audio/webm''\<rparr>]
   \<and> trace (stopRecording studio_env
        ((dataavailable_at 1 \<lparr>blob_data = [4, 5], blob_type = ''audio/webm''\<rparr>
           (dataavailable_at 0 \<lparr>blob_data = [7], blob_type = ''audio/webm''\<rparr>
              (startRecording studio_env ''c2''
                 (run [Close, Init studio_env headset] cancelled_world))))
         \<lparr>trace := []\<rparr>)) =
       [OnMutate,
        OnSuccess (Artifact \<lparr>blob_data = [7, 4, 5, 9], blob_type = ''audio/webm''\<rparr>),
        OnSettled]"
  by (simp add: model_defs example_defs run_def held_chunks_def dataavailable_at_def)

subsection \<open>Stream resolution\<close>

lemma report_simps [simp]:
  "cb_onMutate report = emit OnMutate"
  "cb_onSuccess report = (\<lambda>strm. emit (OnSuccess (StreamRef strm)))"
  "cb_onError report = (\<lambda>err. emit (OnError err))"
  "cb_onSettled report = emit OnSettled"
  by (simp_all add: report_def)

lemma find_none_iff_all_fail:
  "(find ok ds = None) = (\<forall>d\<in>set ds. \<not> ok d)"
  by (induction ds) simp_all

lemma getFirstAvailableStream_fails_iff:
  "(\<exists>err. fst (getFirstAvailableStream e w) = Inl err) =
     (\<forall>d\<in>set (spec_known_devices e). \<not> gum_exact_ok e d)"
proof (cases "find (gum_exact_ok e) (spec_known_devices e)")
  case None
  from getFirstAvailableStream_none [OF this, of w] None show ?thesis
    by (simp add: find_none_iff_all_fail)
next
  case (Some d)
  from getFirstAvailableStream_some [OF this, of w]
  have "\<not> (\<exists>err. fst (getFirstAvailableStream e w) = Inl err)" by auto
  moreover from Some have "\<not> (\<forall>d\<in>set (spec_known_devices e). \<not> gum_exact_ok e d)"
    by (simp flip: find_none_iff_all_fail)
  ultimately show ?thesis by simp
qed

lemma acquire_without_device:
  assumes "deviceId st = []"
  shows "acquireStreamAndSetUpRecordingSession e st report w =
     (case getFirstAvailableStream e
             (emit (Toast (ToastLoading NoDeviceSelected)) (emit OnMutate w)) of
        (Inl err, w3) \<Rightarrow>
          emit OnSettled (emit (OnError (WhisperingError ErrorAcquiringStream (Some err))) w3)
      | (Inr s, w3) \<Rightarrow>
          emit OnSettled (emit (OnSuccess (StreamRef s))
            (emit (Toast (ToastInfo DefaultedToFirstAvailableDevice)) w3)))"
  using assms
  by (simp add: acquireStreamAndSetUpRecordingSession_def Let_def
        split: prod.splits sum.splits)

text \<open>
  Claim C9. The fallback asks for the permission probe and the device list, then
  requests the known devices (the audio inputs listed) one by one in listed order, up
  to and including the first that yields a stream; it fails exactly when every known
  device fails, which includes the case that none is known (the error is ``no
  available audio input devices'' after a successful enumeration and the enumeration's
  own error otherwise), and otherwise returns a live stream bound to the first device
  that works. With an empty \<open>deviceId\<close>,
  stream resolution consists of the fallback alone: after \<open>onMutate\<close> and the
  ``no device selected'' toast the requests to the browser are those of the fallback,
  the first of them the probe, and the outcome reported is the fallback's.
\<close>

theorem empty_device_id_resolves_by_fallback:
  "trace (snd (getFirstAvailableStream e w)) = trace w @ map Platform (spec_fallback_calls e)
   \<and> ((\<exists>err. fst (getFirstAvailableStream e w) = Inl err) =
        (\<forall>d\<in>set (spec_known_devices e). \<not> gum_exact_ok e d))
   \<and> ((\<forall>d\<in>set (spec_known_devices e). \<not> gum_exact_ok e d) \<longrightarrow>
        fst (getFirstAvailableStream e w) =
          Inl (if gum_audio_ok e \<and> enumerate_devices e \<noteq> None
               then WhisperingError MicrophoneAccessError
                      (Some (JsError ''No available audio input devices''))
               else WhisperingError ErrorEnumeratingAndAcquiring (Some DOMException)))
   \<and> (\<forall>d. find (gum_exact_ok e) (spec_known_devices e) = Some d \<longrightarrow>
        (\<exists>s. fst (getFirstAvailableStream e w) = Inr s
           \<and> ms_device (streams (snd (getFirstAvailableStream e w)) s) = Some d
           \<and> active (streams (snd (getFirstAvailableStream e w)) s)))
   \<and> (deviceId st = [] \<longrightarrow>
        (\<exists>outcome.
           trace (acquireStreamAndSetUpRecordingSession e st report w) =
             trace w @ OnMutate # Toast (ToastLoading NoDeviceSelected) #
               map Platform (spec_fallback_calls e) @ outcome
           \<and> (case find (gum_exact_ok e) (spec_known_devices e) of
                 None \<Rightarrow>
                   \<exists>err. outcome =
                     [OnError (WhisperingError ErrorAcquiringStream (Some err)), OnSettled]
               | Some d \<Rightarrow>
                   \<exists>s. outcome =
                     [Toast (ToastInfo DefaultedToFirstAvailableDevice),
                      OnSuccess (StreamRef s), OnSettled]
                     \<and> ms_device (streams
                          (acquireStreamAndSetUpRecordingSession e st report w) s) = Some d
                     \<and> active (streams
                          (acquireStreamAndSetUpRecordingSession e st report w) s))))"
proof (intro conjI allI impI)
  show "trace (snd (getFirstAvailableStream e w)) =
          trace w @ map Platform (spec_fallback_calls e)"
    by (rule getFirstAvailableStream_trace)
next
  show "(\<exists>err. fst (getFirstAvailableStream e w) = Inl err) =
          (\<forall>d\<in>set (spec_known_devices e). \<not> gum_exact_ok e d)"
    by (rule getFirstAvailableStream_fails_iff)
next
  assume "\<forall>d\<in>set (spec_known_devices e). \<not> gum_exact_ok e d"
  then have "find (gum_exact_ok e) (spec_known_devices e) = None"
    by (simp add: find_none_iff_all_fail)
  then show "fst (getFirstAvailableStream e w) =
          Inl (if gum_audio_ok e \<and> enumerate_devices e \<noteq> None
               then WhisperingError MicrophoneAccessError
                      (Some (JsError ''No available audio input devices''))
               else WhisperingError ErrorEnumeratingAndAcquiring (Some DOMException))"
    by (rule getFirstAvailableStream_error)
next
  fix d
  assume "find (gum_exact_ok e) (spec_known_devices e) = Some d"
  from getFirstAvailableStream_some [OF this, of w]
  show "\<exists>s. fst (getFirstAvailableStream e w) = Inr s
           \<and> ms_device (streams (snd (getFirstAvailableStream e w)) s) = Some d
           \<and> active (streams (snd (getFirstAvailableStream e w)) s)"
    by (auto simp: active_def)
next
  assume empty: "deviceId st = []"
  let ?w2 = "emit (Toast (ToastLoading NoDeviceSelected)) (emit OnMutate w)"
  let ?acq = "acquireStreamAndSetUpRecordingSession e st report w"
  obtain res w3 where g: "getFirstAvailableStream e ?w2 = (res, w3)"
    by (cases "getFirstAvailableStream e ?w2")
  from getFirstAvailableStream_trace [of e ?w2] g
  have tr: "trace w3 = trace w @ OnMutate # Toast (ToastLoading NoDeviceSelected) #
              map Platform (spec_fallback_calls e)"
    by simp
  show "\<exists>outcome.
           trace ?acq =
             trace w @ OnMutate # Toast (ToastLoading NoDeviceSelected) #
               map Platform (spec_fallback_calls e) @ outcome
           \<and> (case find (gum_exact_ok e) (spec_known_devices e) of
                 None \<Rightarrow>
                   \<exists>err. outcome =
                     [OnError (WhisperingError ErrorAcquiringStream (Some err)), OnSettled]
               | Some d \<Rightarrow>
                   \<exists>s. outcome =
                     [Toast (ToastInfo DefaultedToFirstAvailableDevice),
                      OnSuccess (StreamRef s), OnSettled]
                     \<and> ms_device (streams ?acq s) = Some d
                     \<and> active (streams ?acq s))"
  proof (cases "find (gum_exact_ok e) (spec_known_devices e)")
    case None
    from getFirstAvailableStream_none [OF this, of ?w2] g
    obtain err where "res = Inl err" by auto
    with g tr None show ?thesis
      by (simp add: acquire_without_device [OF empty])
  next
    case (Some d)
    from getFirstAvailableStream_some [OF this, of ?w2] g
    obtain s where "res = Inr s" and "streams w3 s = \<lparr>ms_device = Some d, ms_tracks = [Live]\<rparr>"
      by auto
    with g tr Some show ?thesis
      by (simp add: acquire_without_device [OF empty] active_def)
  qed
qed

theorem empty_device_id_resolves_by_fallback_witness:
  "deviceId auto_device = []
   \<and> spec_known_devices studio_env = [''D1'', ''D2'']
   \<and> find (gum_exact_ok studio_env) (spec_known_devices studio_env) = Some ''D2''
   \<and> fst (getFirstAvailableStream studio_env fresh_world) = Inr 1
   \<and> ms_device (streams (snd (getFirstAvailableStream studio_env fresh_world)) 1) = Some ''D2''
   \<and> trace (acquireStreamAndSetUpRecordingSession studio_env auto_device report fresh_world) =
       [OnMutate, Toast (ToastLoading NoDeviceSelected),
        Platform GetUserMediaAudio, Platform EnumerateDevices,
        Platform (GetUserMediaExact ''D1''), Platform (GetUserMediaExact ''D2''),
        Toast (ToastInfo DefaultedToFirstAvailableDevice),
        OnSuccess (StreamRef 1), OnSettled]
   \<and> spec_known_devices unplugged_env = []
   \<and> trace (acquireStreamAndSetUpRecordingSession unplugged_env auto_device report
        fresh_world) =
       [OnMutate, Toast (ToastLoading NoDeviceSelected), Platform GetUserMediaAudio,
        OnError (WhisperingError ErrorAcquiringStream
          (Some (WhisperingError ErrorEnumeratingAndAcquiring (Some DOMException)))),
        OnSettled]"
  using empty_device_id_resolves_by_fallback [of studio_env fresh_world auto_device]
    empty_device_id_resolves_by_fallback [of unplugged_env fresh_world auto_device]
  by (simp add: model_defs example_defs spec_known_devices_def spec_fallback_calls_def)

subsection \<open>Chunks\<close>

lemma chunks_nonempty_frame:
  "chunks_nonempty v \<Longrightarrow> currentSession v' = currentSession v \<Longrightarrow> chunks_nonempty v'"
  by (simp add: chunks_nonempty_def held_chunks_def)

lemma chunks_nonempty_no_recorder:
  "currentSession v = Some sess \<Longrightarrow> recorder sess = None \<Longrightarrow> chunks_nonempty v"
  "currentSession v = None \<Longrightarrow> chunks_nonempty v"
  by (simp_all add: chunks_nonempty_def held_chunks_def)

lemma on_dataavailable_nonempty:
  "chunks_nonempty w \<Longrightarrow> chunks_nonempty (on_dataavailable c w)"
  by (auto simp: chunks_nonempty_def held_chunks_def on_dataavailable_def
           split: option.splits)

lemma on_dataavailable_ignores_empty:
  "blob_size c = 0 \<Longrightarrow> on_dataavailable c w = w"
  by (simp add: on_dataavailable_def split: option.splits)

lemma initRecordingSession_nonempty:
  assumes "chunks_nonempty w"
  shows "chunks_nonempty (initRecordingSession e st w)"
proof (cases "currentSession w")
  case (Some sess)
  then have "currentSession (initRecordingSession e st w) = currentSession w"
    by (simp add: initRecordingSession_def Let_def)
  with assms show ?thesis by (rule chunks_nonempty_frame)
next
  case None
  have "chunks_nonempty
          (acquireStreamAndSetUpRecordingSession e st (init_callbacks st) (emit OnMutate w))"
  proof (rule acquire_invariant [where P = chunks_nonempty])
    show "chunks_nonempty (emit OnMutate w)"
      using assms by (rule chunks_nonempty_frame) simp
  qed (auto simp: chunks_nonempty_def held_chunks_def)
  then have "chunks_nonempty
          (emit OnSettled
            (acquireStreamAndSetUpRecordingSession e st (init_callbacks st) (emit OnMutate w)))"
    by (rule chunks_nonempty_frame) simp
  with None show ?thesis by (simp add: initRecordingSession_def Let_def)
qed

lemma closeRecordingSession_nonempty:
  "chunks_nonempty w \<Longrightarrow> chunks_nonempty (closeRecordingSession w)"
  by (auto simp: chunks_nonempty_def held_chunks_def closeRecordingSession_def Let_def
           split: option.splits)

lemma cancelRecording_nonempty:
  "chunks_nonempty w \<Longrightarrow> chunks_nonempty (cancelRecording w)"
  by (auto simp: chunks_nonempty_def held_chunks_def cancelRecording_def Let_def
           split: option.splits)

lemma before_stop_listener_nonempty:
  "chunks_nonempty w \<Longrightarrow>
     chunks_nonempty (on_dataavailable (stop_flush e) (recorder_stop r (emit OnMutate w)))"
  by (rule on_dataavailable_nonempty) (simp add: chunks_nonempty_def held_chunks_def)

lemma stop_listener_session:
  "currentSession (stop_listener w) = currentSession w"
  by (simp add: stop_listener_def split: option.splits)

lemma stopRecording_nonempty:
  assumes "chunks_nonempty w"
  shows "chunks_nonempty (stopRecording e w)"
proof -
  have base: "chunks_nonempty (emit OnMutate w)"
    using assms by (rule chunks_nonempty_frame) simp
  have fin: "chunks_nonempty (emit OnSettled (emit ev (emit OnMutate w)))" for ev
    using assms by (rule chunks_nonempty_frame) simp
  have listen: "chunks_nonempty
      (stop_listener (on_dataavailable (stop_flush e) (recorder_stop r (emit OnMutate w))))"
    for r
    using before_stop_listener_nonempty [OF assms]
    by (rule chunks_nonempty_frame) (rule stop_listener_session)
  show ?thesis
    by (simp add: stopRecording_def Let_def base fin listen
          split: option.splits recording_state.splits)
qed

lemma startRecording_nonempty:
  assumes "chunks_nonempty w"
  shows "chunks_nonempty (startRecording e rid w)"
proof (cases "currentSession w")
  case None
  then have "currentSession (startRecording e rid w) = currentSession w"
    by (simp add: startRecording_def Let_def)
  with assms show ?thesis by (rule chunks_nonempty_frame)
next
  case (Some sess)
  show ?thesis
  proof (cases "new_recorder_ok e")
    case True
    from startRecording_opens(1) [OF Some True, of rid] show ?thesis
      by (auto simp: chunks_nonempty_def held_chunks_def)
  next
    case False
    have "chunks_nonempty (before_recorder e sess w)"
    proof (cases "active (streams w (stream sess))")
      case True
      with assms show ?thesis
        by (simp add: before_recorder_def chunks_nonempty_def held_chunks_def)
    next
      case stale: False
      have "chunks_nonempty
              (acquireStreamAndSetUpRecordingSession e (settings sess)
                 (refresh_callbacks (settings sess))
                 (emit (Toast (ToastLoading RecordingSessionExpired)) (emit OnMutate w)))"
      proof (rule acquire_invariant [where P = chunks_nonempty])
        show "chunks_nonempty
                (emit (Toast (ToastLoading RecordingSessionExpired)) (emit OnMutate w))"
          using assms by (rule chunks_nonempty_frame) simp
      qed (auto simp: chunks_nonempty_def held_chunks_def)
      with stale show ?thesis by (simp add: before_recorder_def)
    qed
    then have "chunks_nonempty
        (emit OnSettled
          (emit (OnError (WhisperingError RecordingSetupFailed (Some DOMException)))
            (before_recorder e sess w)))"
      by (rule chunks_nonempty_frame) simp
    with Some False show ?thesis
      by (simp add: startRecording_def before_recorder_def Let_def)
  qed
qed

lemma step_nonempty:
  "chunks_nonempty w \<Longrightarrow> chunks_nonempty (step a w)"
  by (cases a)
     (simp_all add: initRecordingSession_nonempty closeRecordingSession_nonempty
        startRecording_nonempty stopRecording_nonempty cancelRecording_nonempty
        on_dataavailable_nonempty)

lemma run_nonempty:
  "chunks_nonempty w \<Longrightarrow> chunks_nonempty (run acts w)"
  unfolding run_def by (induction acts arbitrary: w) (simp_all add: step_nonempty)

text \<open>
  Claim C10. A \<^verbatim>\<open>dataavailable\<close> event that carries a chunk of size zero leaves the
  world as it is. In every world the service reaches from its creation, by any
  sequence of operations and deliveries, every chunk held by the active capture has a
  size other than zero; so has every chunk of the list from which
  \<^verbatim>\<open>stopRecording\<close> builds the artifact, which is the held list after the
  recorder's last delivery.
\<close>

theorem held_chunks_are_nonempty:
  "(blob_size c = 0 \<longrightarrow> on_dataavailable c w = w)
   \<and> (currentSession w = None \<longrightarrow>
        (\<forall>x\<in>set (held_chunks (run acts w)). blob_size x \<noteq> 0)
        \<and> (\<forall>x\<in>set (held_chunks
                 (on_dataavailable (stop_flush e)
                    (recorder_stop r (emit OnMutate (run acts w))))). blob_size x \<noteq> 0))"
proof (intro conjI impI)
  assume "blob_size c = 0"
  then show "on_dataavailable c w = w" by (rule on_dataavailable_ignores_empty)
next
  assume "currentSession w = None"
  then have "chunks_nonempty w" by (rule chunks_nonempty_no_recorder)
  then have r: "chunks_nonempty (run acts w)" by (rule run_nonempty)
  then show "\<forall>x\<in>set (held_chunks (run acts w)). blob_size x \<noteq> 0"
    by (simp add: chunks_nonempty_def)
  from before_stop_listener_nonempty [OF r]
  show "\<forall>x\<in>set (held_chunks
                 (on_dataavailable (stop_flush e)
                    (recorder_stop r (emit OnMutate (run acts w))))). blob_size x \<noteq> 0"
    by (simp add: chunks_nonempty_def)
qed

theorem held_chunks_are_nonempty_witness:
  "blob_size \<lparr>blob_data = [], blob_type = ''audio/webm''\<rparr> = 0
   \<and> held_chunks (on_dataavailable \<lparr>blob_data = [], blob_type = ''audio/webm''\<rparr>
         capturing_world) = []
   \<and> currentSession fresh_world = None
   \<and> held_chunks
        (run [Init studio_env headset, Start studio_env ''c1'',
              DataAvailable \<lparr>blob_data = [], blob_type = ''audio/webm''\<rparr>,
              DataAvailable \<lparr>blob_data = [1, 2], blob_type = ''audio/webm''\<rparr>,
              Stop studio_env] fresh_world) =
       [\<lparr>blob_data = [1, 2], blob_type = ''audio/webm''\<rparr>,
        \<lparr>blob_data = [9], blob_type = ''audio/webm''\<rparr>]"
  using held_chunks_are_nonempty
    [of "\<lparr>blob_data = [], blob_type = ''audio/webm''\<rparr>" capturing_world]
    held_chunks_are_nonempty
    [of _ fresh_world
        "[Init studio_env headset, Start studio_env ''c1'',
          DataAvailable \<lparr>blob_data = [], blob_type = ''audio/webm''\<rparr>,
          DataAvailable \<lparr>blob_data = [1, 2], blob_type = ''audio/webm''\<rparr>,
          Stop studio_env]"]
  by (simp add: model_defs example_defs run_def held_chunks_def)

subsection \<open>Where the service departs from its contract\<close>

lemma stopRecording_session:
  assumes "currentSession w = Some sess" and "recorder sess = Some r"
    and "mr_state (recorders w (mediaRecorder r)) = Recording"
  shows "currentSession (stopRecording e w) =
           Some (sess\<lparr>recorder := Some (r\<lparr>recordedChunks :=
              recordedChunks r @ filter (\<lambda>c. blob_size c \<noteq> 0) [stop_flush e]\<rparr>)\<rparr>)"
  using assms
  by (simp add: stopRecording_def stop_listener_def on_dataavailable_def Let_def)

text \<open>
  Claim C2 (not met by the code). \<^verbatim>\<open>stopRecording\<close> on a recording recorder
  succeeds with an artifact, but the session still holds the recorder afterwards, and
  a \<^verbatim>\<open>closeRecordingSession\<close> that follows at once fails with ``recording in
  progress''.
\<close>

theorem stop_leaves_the_recorder_in_place:
  assumes "currentSession w = Some sess" and "recorder sess = Some r"
    and "mr_state (recorders w (mediaRecorder r)) = Recording"
  shows "(\<exists>b. trace (stopRecording e w) = trace w @ [OnMutate, OnSuccess (Artifact b), OnSettled])
         \<and> (\<exists>sess' r'. currentSession (stopRecording e w) = Some sess' \<and> recorder sess' = Some r')
         \<and> trace (closeRecordingSession (stopRecording e w)) =
             trace (stopRecording e w) @
               [OnMutate, OnError (WhisperingError RecordingInProgress None), OnSettled]"
proof (intro conjI)
  show "\<exists>b. trace (stopRecording e w) = trace w @ [OnMutate, OnSuccess (Artifact b), OnSettled]"
    using stopRecording_recording [OF assms, of e] by blast
  note cur = stopRecording_session [OF assms, of e]
  then show "\<exists>sess' r'. currentSession (stopRecording e w) = Some sess' \<and> recorder sess' = Some r'"
    by simp
  from cur
  show "trace (closeRecordingSession (stopRecording e w)) =
             trace (stopRecording e w) @
               [OnMutate, OnError (WhisperingError RecordingInProgress None), OnSettled]"
    by (simp add: closeRecordingSession_def Let_def)
qed

theorem stop_leaves_the_recorder_in_place_witness:
  "currentSession capturing_world =
     Some \<lparr>settings = headset, stream = 0,
           recorder = Some \<lparr>mediaRecorder = 0, recordedChunks = [],
                             recordingId = ''c1''\<rparr>\<rparr>
   \<and> mr_state (recorders capturing_world 0) = Recording
   \<and> trace (stopRecording studio_env (capturing_world\<lparr>trace := []\<rparr>)) =
       [OnMutate, OnSuccess (Artifact \<lparr>blob_data = [9], blob_type = ''audio/webm''\<rparr>),
        OnSettled]
   \<and> currentSession (stopRecording studio_env capturing_world) =
       Some \<lparr>settings = headset, stream = 0,
             recorder = Some \<lparr>mediaRecorder = 0,
                               recordedChunks = [\<lparr>blob_data = [9], blob_type = ''audio/webm''\<rparr>],
                               recordingId = ''c1''\<rparr>\<rparr>
   \<and> trace (closeRecordingSession
        ((stopRecording studio_env capturing_world)\<lparr>trace := []\<rparr>)) =
       [OnMutate, OnError (WhisperingError RecordingInProgress None), OnSettled]"
  using stop_leaves_the_recorder_in_place
    [of capturing_world
        "\<lparr>settings = headset, stream = 0,
          recorder = Some \<lparr>mediaRecorder = 0, recordedChunks = [], recordingId = ''c1''\<rparr>\<rparr>"
        "\<lparr>mediaRecorder = 0, recordedChunks = [], recordingId = ''c1''\<rparr>" studio_env]
  by (simp add: model_defs example_defs)

text \<open>
  Claim C3 (not met by the code). \<^verbatim>\<open>closeRecordingSession\<close> without a session
  invokes \<open>onMutate\<close> and \<open>onError\<close> and returns: \<open>onSettled\<close> is never invoked.
\<close>

theorem close_without_session_does_not_settle:
  assumes "currentSession w = None"
  shows "trace (closeRecordingSession w) =
           trace w @ [OnMutate, OnError (WhisperingError NoActiveSession None)]"
  using assms by (simp add: closeRecordingSession_def Let_def)

theorem close_without_session_does_not_settle_witness:
  "currentSession fresh_world = None
   \<and> trace (closeRecordingSession fresh_world) =
       [OnMutate, OnError (WhisperingError NoActiveSession None)]
   \<and> count_list (trace (closeRecordingSession fresh_world)) OnSettled = 0"
  using close_without_session_does_not_settle [of fresh_world]
  by (simp add: model_defs example_defs)

text \<open>
  Claim C4 (not met by the code). In \<open>cancelled_world\<close> the session is open and its
  stream has ended, so \<^verbatim>\<open>startRecording\<close> refreshes the session first. When no
  microphone can be opened, the refresh reports \<open>onError\<close> and the function goes on
  to build and start a recorder: if the browser starts it, \<open>onSuccess\<close> follows
  \<open>onError\<close> (two completions). When the headset can be opened but the browser
  refuses to start a recorder on the ended stream, the exception leaves the function
  and neither callback is invoked (no completion).
\<close>

theorem stale_start_breaks_completion:
  "currentSession cancelled_world = Some \<lparr>settings = headset, stream = 0, recorder = None\<rparr>
   \<and> \<not> active (streams cancelled_world 0)
   \<and> trace (startRecording unplugged_env ''c2'' (cancelled_world\<lparr>trace := []\<rparr>)) =
       [OnMutate, Toast (ToastLoading RecordingSessionExpired),
        Toast (ToastLoading ConnectingToSelectedDevice),
        Platform (GetUserMediaExact ''D2''),
        Toast (ToastLoading ErrorConnectingToSelectedDevice),
        Platform GetUserMediaAudio,
        OnError (WhisperingError MicrophoneAccessError
          (Some (WhisperingError ErrorAcquiringStream
            (Some (WhisperingError ErrorEnumeratingAndAcquiring (Some DOMException)))))),
        OnSuccess Void, OnSettled]
   \<and> length (completions
        (trace (startRecording unplugged_env ''c2'' (cancelled_world\<lparr>trace := []\<rparr>)))) = 2
   \<and> trace (startRecording (studio_env\<lparr>recorder_start_ok := False\<rparr>) ''c2''
        (cancelled_world\<lparr>trace := []\<rparr>)) =
       [OnMutate, Toast (ToastLoading RecordingSessionExpired),
        Toast (ToastLoading ConnectingToSelectedDevice),
        Platform (GetUserMediaExact ''D2''), Uncaught DOMException]
   \<and> length (completions
        (trace (startRecording (studio_env\<lparr>recorder_start_ok := False\<rparr>) ''c2''
           (cancelled_world\<lparr>trace := []\<rparr>)))) = 0"
  by (simp add: model_defs example_defs completions_def)

text \<open>
  Claim C5 (not met by the code). In \<open>cancelled_world\<close> \<^verbatim>\<open>startRecording\<close>
  refreshes the session with the same settings: the session then holds the new, live
  stream 1. The recorder, at the configured bitrate, is built on stream 0, the ended
  stream the session held when the function was entered.
\<close>

theorem stale_start_records_the_ended_stream:
  "currentSession cancelled_world = Some \<lparr>settings = headset, stream = 0, recorder = None\<rparr>
   \<and> \<not> active (streams cancelled_world 0)
   \<and> currentSession (startRecording studio_env ''c2'' cancelled_world) =
       Some \<lparr>settings = headset, stream = 1,
             recorder = Some \<lparr>mediaRecorder = 1, recordedChunks = [],
                               recordingId = ''c2''\<rparr>\<rparr>
   \<and> active (streams (startRecording studio_env ''c2'' cancelled_world) 1)
   \<and> \<not> active (streams (startRecording studio_env ''c2'' cancelled_world) 0)
   \<and> mr_stream (recorders (startRecording studio_env ''c2'' cancelled_world) 1) = 0
   \<and> mr_bitsPerSecond (recorders (startRecording studio_env ''c2'' cancelled_world) 1) =
       bitsPerSecond headset
   \<and> mr_stream (recorders
        (startRecording (studio_env\<lparr>recorder_start_ok := False\<rparr>) ''c2'' cancelled_world) 1) = 0"
  by (simp add: model_defs example_defs)

end
